theory Spec2Isabelle
  imports Complex_Main "HOL-Library.AList" "HOL-Library.Char_ord" "HOL-Library.List_Lexorder"
    "HOL-Library.Multiset"
begin

section \<open>Portfolio optimisation service: data model\<close>

text \<open>
  The Python services raise \<^verbatim>\<open>ValueError\<close> with a message; the API routes raise
  \<^verbatim>\<open>HTTPException\<close> with a status code and a detail string; the optimisation
  library raises exceptions of its own, here \<open>SolverError\<close>. All are values.
\<close>

datatype error = ValueError string | HTTPException nat string | SolverError string

text \<open>
  \<^verbatim>\<open>OptimizationRequest\<close> of \<^verbatim>\<open>app/models.py\<close>. Numbers are exact reals;
  \<^verbatim>\<open>Optional[float]\<close> is an option and the price dictionary an association list.
\<close>

record optimization_request =
  risk_profile :: string
  objective :: string
  target_return :: "real option"
  lookback_period :: int
  min_weight :: real
  max_weight :: real
  current_prices :: "(string \<times> real) list option"

text \<open>
  One entry of \<^verbatim>\<open>RISK_PROFILES\<close>, and the dictionary \<^verbatim>\<open>_get_risk_config\<close> returns.
  The key \<^verbatim>\<open>max_volatility\<close> is absent from the aggressive profile, and
  \<^verbatim>\<open>target_return\<close> is read with \<^verbatim>\<open>.get\<close>, so both are options.
\<close>

record risk_config =
  cfg_max_volatility :: "real option"
  cfg_min_weight :: real
  cfg_max_weight :: real
  cfg_objective :: string
  cfg_target_return :: "real option"

definition conservative_profile :: risk_config where
  "conservative_profile =
     \<lparr>cfg_max_volatility = Some (15 / 100), cfg_min_weight = 5 / 100, cfg_max_weight = 25 / 100,
      cfg_objective = ''min_volatility'', cfg_target_return = Some (8 / 100)\<rparr>"

definition moderate_profile :: risk_config where
  "moderate_profile =
     \<lparr>cfg_max_volatility = Some (20 / 100), cfg_min_weight = 2 / 100, cfg_max_weight = 30 / 100,
      cfg_objective = ''efficient_return'', cfg_target_return = Some (12 / 100)\<rparr>"

definition aggressive_profile :: risk_config where
  "aggressive_profile =
     \<lparr>cfg_max_volatility = None, cfg_min_weight = 1 / 100, cfg_max_weight = 40 / 100,
      cfg_objective = ''max_sharpe'', cfg_target_return = Some (15 / 100)\<rparr>"

definition RISK_PROFILES :: "string \<Rightarrow> risk_config option" where
  "RISK_PROFILES name =
     (if name = ''conservative'' then Some conservative_profile
      else if name = ''moderate'' then Some moderate_profile
      else if name = ''aggressive'' then Some aggressive_profile
      else None)"

text \<open>Python truthiness of an \<^verbatim>\<open>Optional[float]\<close>, a float and a string.\<close>

definition truthy_opt :: "real option \<Rightarrow> bool" where
  "truthy_opt v = (case v of None \<Rightarrow> False | Some x \<Rightarrow> x \<noteq> 0)"

definition truthy_num :: "real \<Rightarrow> bool" where
  "truthy_num x = (x \<noteq> 0)"

definition truthy_str :: "string \<Rightarrow> bool" where
  "truthy_str s = (s \<noteq> [])"

text \<open>
  \<^verbatim>\<open>OptimizationService._get_risk_config\<close>: a copy of the profile, overridden field by
  field under \<^verbatim>\<open>if request.<field>:\<close>.
\<close>

definition get_risk_config :: "optimization_request \<Rightarrow> error + risk_config" where
  "get_risk_config request =
     (case RISK_PROFILES (risk_profile request) of
        None \<Rightarrow> Inl (ValueError (''Invalid risk profile: '' @ risk_profile request))
      | Some profile \<Rightarrow>
          (let config = profile;
               config = (if truthy_opt (target_return request)
                         then config\<lparr>cfg_target_return := target_return request\<rparr> else config);
               config = (if truthy_num (min_weight request)
                         then config\<lparr>cfg_min_weight := min_weight request\<rparr> else config);
               config = (if truthy_num (max_weight request)
                         then config\<lparr>cfg_max_weight := max_weight request\<rparr> else config);
               config = (if truthy_str (objective request)
                         then config\<lparr>cfg_objective := objective request\<rparr> else config)
           in Inr config))"

section \<open>Time, strings and cache keys\<close>

text \<open>
  A \<^verbatim>\<open>datetime\<close> is a count of microseconds; the difference of two is a
  \<^verbatim>\<open>timedelta\<close>, which Python normalises to days, seconds in \<open>[0, 86400)\<close> and
  microseconds. \<^verbatim>\<open>timedelta.seconds\<close> is that seconds component only.
\<close>

type_synonym datetime = int

definition td_seconds :: "int \<Rightarrow> int" where
  "td_seconds delta = (delta div 1000000) mod 86400"

definition timedelta_days :: "int \<Rightarrow> int" where
  "timedelta_days d = d * 86400 * 1000000"

definition timedelta_seconds :: "int \<Rightarrow> int" where
  "timedelta_seconds s = s * 1000000"

definition digit_char :: "nat \<Rightarrow> char" where
  "digit_char d = ''0123456789'' ! d"

function str_nat :: "nat \<Rightarrow> string" where
  "str_nat n = (if n < 10 then [digit_char n] else str_nat (n div 10) @ [digit_char (n mod 10)])"
  by pat_completeness auto
termination
  by (relation "measure id") auto

definition str_int :: "int \<Rightarrow> string" where
  "str_int i = (if i < 0 then ''-'' @ str_nat (nat (- i)) else str_nat (nat i))"

fun join :: "string \<Rightarrow> string list \<Rightarrow> string" where
  "join sep [] = []"
| "join sep [x] = x"
| "join sep (x # y # ys) = x @ sep @ join sep (y # ys)"

text \<open>
  \<^verbatim>\<open>str(e)\<close> of an exception; an \<^verbatim>\<open>HTTPException\<close> prints as its status, a colon
  and its detail.
\<close>

fun str_error :: "error \<Rightarrow> string" where
  "str_error (ValueError msg) = msg"
| "str_error (HTTPException code detail) = str_nat code @ '': '' @ detail"
| "str_error (SolverError msg) = msg"

text \<open>The key of the historical-data cache: \<^verbatim>\<open>f"{'-'.join(sorted(symbols))}_{lookback_days}"\<close>.\<close>

definition cache_key :: "string list \<Rightarrow> int \<Rightarrow> string" where
  "cache_key symbols lookback_days = join ''-'' (sort symbols) @ ''_'' @ str_int lookback_days"

section \<open>Historical prices\<close>

text \<open>
  A price series is a list of (date, close) pairs, one per trading day. A
  \<^verbatim>\<open>DataFrame\<close> has a date index and one column of cells per symbol; a cell is
  \<open>None\<close> where pandas holds NaN.
\<close>

type_synonym series = "(int \<times> real) list"

record dataframe =
  df_index :: "int list"
  df_columns :: "(string \<times> real option list) list"

definition df_empty :: "dataframe \<Rightarrow> bool" where
  "df_empty df = (df_index df = [] \<or> df_columns df = [])"

text \<open>\<^verbatim>\<open>pd.DataFrame(all_data)\<close>: the index is the union of the series' dates.\<close>

definition DataFrame :: "(string \<times> series) list \<Rightarrow> dataframe" where
  "DataFrame all_data =
     (let idx = remdups (concat (map (\<lambda>(symbol, d). map fst d) all_data))
      in \<lparr>df_index = idx,
          df_columns = map (\<lambda>(symbol, d). (symbol, map (map_of d) idx)) all_data\<rparr>)"

definition sort_index :: "dataframe \<Rightarrow> dataframe" where
  "sort_index df =
     (let idx = sort (df_index df)
      in \<lparr>df_index = idx,
          df_columns = map (\<lambda>(symbol, cells).
            (symbol, map (\<lambda>d. case map_of (zip (df_index df) cells) d of
                                 None \<Rightarrow> None | Some c \<Rightarrow> c) idx))
            (df_columns df)\<rparr>)"

text \<open>\<^verbatim>\<open>len(historical_data[symbol].dropna())\<close> for one column.\<close>

definition dropna_len :: "real option list \<Rightarrow> nat" where
  "dropna_len cells = length (filter (\<lambda>c. c \<noteq> None) cells)"

text \<open>\<^verbatim>\<open>historical_data[valid_symbols]\<close>: the named columns, in the order named.\<close>

definition select_columns :: "dataframe \<Rightarrow> string list \<Rightarrow> dataframe" where
  "select_columns df names =
     df\<lparr>df_columns :=
          List.map_filter (\<lambda>n. map_option (Pair n) (map_of (df_columns df) n)) names\<rparr>"

text \<open>
  The Marketstack transport: what \<^verbatim>\<open>_fetch_symbol_data(symbol, start, end)\<close> yields for
  one HTTP request, \<open>None\<close> when it returns \<^verbatim>\<open>None\<close> or raises.
\<close>

type_synonym eod_api = "string \<Rightarrow> datetime \<Rightarrow> datetime \<Rightarrow> series option"

text \<open>The loop of \<^verbatim>\<open>MarketstackClient.get_historical_data\<close> over the symbols.\<close>

fun fetch_all ::
  "eod_api \<Rightarrow> datetime \<Rightarrow> datetime \<Rightarrow> string list \<Rightarrow> (string \<times> series) list
    \<Rightarrow> (string \<times> series) list" where
  "fetch_all api start_date end_date [] all_data = all_data"
| "fetch_all api start_date end_date (symbol # symbols) all_data =
     fetch_all api start_date end_date symbols
       (case api symbol start_date end_date of
          None \<Rightarrow> all_data
        | Some d \<Rightarrow> if d \<noteq> [] then AList.update symbol d all_data else all_data)"

text \<open>
  \<^verbatim>\<open>MarketstackClient.get_historical_data\<close>. The second component lists the symbols
  for which an external request was issued.
\<close>

definition get_historical_data ::
  "string \<Rightarrow> eod_api \<Rightarrow> string list \<Rightarrow> datetime \<Rightarrow> datetime
    \<Rightarrow> (error + dataframe) \<times> string list" where
  "get_historical_data api_key api symbols start_date end_date =
     (if \<not> truthy_str api_key
      then (Inl (ValueError ''Marketstack API key not configured''), [])
      else
        (let all_data = fetch_all api start_date end_date symbols []
         in (if all_data = []
             then Inl (ValueError ''No historical data retrieved from Marketstack'')
             else Inr (sort_index (DataFrame all_data)),
             symbols)))"

section \<open>Historical-data cache\<close>

type_synonym hist_cache = "string \<Rightarrow> (dataframe \<times> datetime) option"

definition cache_timeout :: int where
  "cache_timeout = 3600"

definition min_data_points :: nat where
  "min_data_points = 60"

text \<open>The cache check of \<^verbatim>\<open>_fetch_historical_data\<close> (lines 187-191).\<close>

definition cache_check :: "hist_cache \<Rightarrow> string \<Rightarrow> datetime \<Rightarrow> dataframe option" where
  "cache_check cache key now =
     (case cache key of
        None \<Rightarrow> None
      | Some (cached_data, cached_time) \<Rightarrow>
          if td_seconds (now - cached_time) < cache_timeout then Some cached_data else None)"

definition valid_symbols_of :: "dataframe \<Rightarrow> string list" where
  "valid_symbols_of df =
     map fst (filter (\<lambda>(symbol, cells). dropna_len cells \<ge> min_data_points) (df_columns df))"

definition fetch_failed :: "error \<Rightarrow> error" where
  "fetch_failed e = ValueError (''Failed to fetch historical data: '' @ str_error e)"

text \<open>
  \<^verbatim>\<open>OptimizationService._fetch_historical_data\<close>. The three clock readings are
  \<open>t_start\<close> (line 181), \<open>t_check\<close> (line 189) and \<open>t_store\<close> (line 217). The result
  is the value or error, the cache afterwards, and the external requests issued.
\<close>

definition fetch_historical_data ::
  "string \<Rightarrow> eod_api \<Rightarrow> hist_cache \<Rightarrow> datetime \<Rightarrow> datetime \<Rightarrow> datetime
    \<Rightarrow> string list \<Rightarrow> int \<Rightarrow> (error + dataframe) \<times> hist_cache \<times> string list" where
  "fetch_historical_data api_key api cache t_start t_check t_store symbols lookback_days =
     (let end_date = t_start;
          start_date = end_date - timedelta_days (lookback_days + 30);
          key = cache_key symbols lookback_days
      in case cache_check cache key t_check of
           Some cached_data \<Rightarrow> (Inr cached_data, cache, [])
         | None \<Rightarrow>
            (case get_historical_data api_key api symbols start_date end_date of
               (Inl e, calls) \<Rightarrow> (Inl (fetch_failed e), cache, calls)
             | (Inr historical_data, calls) \<Rightarrow>
                 if df_empty historical_data
                 then (Inl (fetch_failed
                         (ValueError ''No historical data retrieved from Marketstack'')),
                       cache, calls)
                 else
                   (let valid_symbols = valid_symbols_of historical_data;
                        historical_data = select_columns historical_data valid_symbols
                    in if df_empty historical_data \<or> length valid_symbols < 3
                       then (Inl (fetch_failed
                               (ValueError
                                  ''Insufficient valid historical data for optimization'')),
                             cache, calls)
                       else (Inr historical_data,
                             cache(key \<mapsto> (historical_data, t_store)), calls))))"

text \<open>
  The symbols that remain of a fetch after those with fewer than 60 valid observations are
  dropped: the valid columns of the frame the client returned, and none when it raised.
\<close>

definition remaining_symbols :: "error + dataframe \<Rightarrow> string list" where
  "remaining_symbols fetched = (case fetched of Inl e \<Rightarrow> [] | Inr df \<Rightarrow> valid_symbols_of df)"

text \<open>Whether a call returned a value rather than raised.\<close>

fun succeeded :: "'e + 'a \<Rightarrow> bool" where
  "succeeded (Inr v) = True"
| "succeeded (Inl e) = False"

text \<open>
  Example data: a transport that returns sixty daily closes for every symbol, one that
  returns only ten for GOOGL, and a first fetch of three symbols on an empty cache.
\<close>

definition sixty_days :: series where
  "sixty_days = map (\<lambda>d. (int d, 100)) [0..<60]"

definition flat_api :: eod_api where
  "flat_api symbol start_date end_date = Some sixty_days"

definition short_api :: eod_api where
  "short_api symbol start_date end_date =
     (if symbol = ''GOOGL'' then Some (take 10 sixty_days) else Some sixty_days)"

definition no_api :: eod_api where
  "no_api symbol start_date end_date = None"

definition first_fetch :: "(error + dataframe) \<times> hist_cache \<times> string list" where
  "first_fetch =
     fetch_historical_data ''key'' flat_api (\<lambda>k. None) 0 0 0 [''MSFT'', ''AAPL'', ''GOOGL''] 252"

section \<open>Mean-variance solver\<close>

text \<open>
  The optimiser is the external library PyPortfolioOpt. One \<^verbatim>\<open>EfficientFrontier(mu, S)\<close>,
  with the two added bound constraints \<open>Some (lo, hi)\<close> or with none added, asked for one
  objective, either raises or yields a weight per symbol; \<open>mu\<close> and \<open>S\<close> are fixed inside
  the parameter. The target of \<^verbatim>\<open>efficient_return\<close> is \<open>None\<close> when it is the float NaN.
\<close>

datatype objective_call = MaxSharpe | MinVolatility | EfficientReturn "real option"

type_synonym weights = "(string \<times> real) list"

type_synonym solver = "(real \<times> real) option \<Rightarrow> objective_call \<Rightarrow> error + weights"

text \<open>\<^verbatim>\<open>np.round(x, d)\<close>: to \<open>d\<close> decimals, halves to the even neighbour.\<close>

definition round_half_even :: "real \<Rightarrow> int" where
  "round_half_even x =
     (let f = \<lfloor>x\<rfloor>; r = x - of_int f
      in if r < 1 / 2 then f else if r > 1 / 2 then f + 1 else if even f then f else f + 1)"

definition np_round :: "nat \<Rightarrow> real \<Rightarrow> real" where
  "np_round d x = of_int (round_half_even (x * 10 ^ d)) / 10 ^ d"

text \<open>
  The library's \<^verbatim>\<open>clean_weights(cutoff, rounding=5)\<close>: weights of absolute value below
  the cutoff become 0, then every weight is rounded to five decimals.
\<close>

definition clean_weights :: "real \<Rightarrow> weights \<Rightarrow> weights" where
  "clean_weights cutoff ws =
     map (\<lambda>(symbol, w). (symbol, np_round 5 (if \<bar>w\<bar> < cutoff then 0 else w))) ws"

text \<open>Lines 272-274 of \<^verbatim>\<open>_optimize_weights\<close>: divide by the total when it is positive.\<close>

definition normalize_weights :: "weights \<Rightarrow> weights" where
  "normalize_weights ws =
     (let total_weight = sum_list (map snd ws)
      in if total_weight > 0 then map (\<lambda>(symbol, weight). (symbol, weight / total_weight)) ws
         else ws)"

text \<open>The \<^verbatim>\<open>if/elif\<close> chain on the objective (lines 256-266).\<close>

definition objective_call_of :: "risk_config \<Rightarrow> error + objective_call" where
  "objective_call_of risk_config =
     (let objective = cfg_objective risk_config
      in if objective = ''max_sharpe'' then Inr MaxSharpe
         else if objective = ''min_volatility'' then Inr MinVolatility
         else if objective = ''efficient_return''
           then Inr (EfficientReturn
                  (Some (case cfg_target_return risk_config of None \<Rightarrow> 12 / 100 | Some t \<Rightarrow> t)))
         else Inl (ValueError (''Unknown optimization objective: '' @ objective)))"

definition optimization_failed :: "error \<Rightarrow> error" where
  "optimization_failed e = ValueError (''Optimization failed: '' @ str_error e)"

text \<open>\<^verbatim>\<open>OptimizationService._optimize_weights\<close>; the request argument is not read.\<close>

definition optimize_weights ::
  "solver \<Rightarrow> risk_config \<Rightarrow> optimization_request \<Rightarrow> error + weights" where
  "optimize_weights solve risk_config request =
     (case objective_call_of risk_config of
        Inl e \<Rightarrow> Inl (optimization_failed e)
      | Inr call \<Rightarrow>
          (case solve (Some (cfg_min_weight risk_config, cfg_max_weight risk_config)) call of
             Inl e \<Rightarrow> Inl (optimization_failed e)
           | Inr raw \<Rightarrow> Inr (normalize_weights (clean_weights (5 / 1000) raw))))"

text \<open>
  Examples: four assets under the request bounds 0.001 and 0.333. The only weights that
  meet the bounds and sum to 1 are 0.333, 0.333, 0.333, 0.001, which the first example
  solver returns. The second returns weights for five assets within the same bounds, two
  of them below the cutoff.
\<close>

definition tight_request :: optimization_request where
  "tight_request =
     \<lparr>risk_profile = ''aggressive'', objective = ''min_volatility'', target_return = None,
      lookback_period = 252, min_weight = 1 / 1000, max_weight = 333 / 1000,
      current_prices = None\<rparr>"

definition tight_config :: risk_config where
  "tight_config =
     \<lparr>cfg_max_volatility = None, cfg_min_weight = 1 / 1000, cfg_max_weight = 333 / 1000,
      cfg_objective = ''min_volatility'', cfg_target_return = Some (15 / 100)\<rparr>"

definition tight_solver :: solver where
  "tight_solver bounds call =
     Inr [(''AAPL'', 333 / 1000), (''MSFT'', 333 / 1000), (''GOOGL'', 333 / 1000),
          (''AMZN'', 1 / 1000)]"

definition cut_solver :: solver where
  "cut_solver bounds call =
     Inr [(''AAPL'', 330 / 1000), (''MSFT'', 330 / 1000), (''GOOGL'', 333 / 1000),
          (''AMZN'', 4 / 1000), (''TSLA'', 3 / 1000)]"

section \<open>Portfolio metrics and the efficient frontier\<close>

text \<open>
  \<^verbatim>\<open>PortfolioMetrics\<close> and \<^verbatim>\<open>EfficientFrontierPoint\<close> of \<^verbatim>\<open>app/models.py\<close>.
  \<open>mu\<close> is the series of expected returns, one per symbol, and \<open>S\<close> the covariance
  matrix of the same symbols, row by row.
\<close>

record portfolio_metrics =
  pm_expected_return :: real
  pm_volatility :: real
  pm_sharpe_ratio :: real
  pm_max_drawdown :: "real option"
  pm_cvar :: "real option"
  pm_weights :: weights

record frontier_point =
  fp_expected_return :: real
  fp_volatility :: real
  fp_sharpe_ratio :: real
  fp_weights :: weights

definition dot :: "real list \<Rightarrow> real list \<Rightarrow> real" where
  "dot xs ys = sum_list (map2 (*) xs ys)"

text \<open>\<^verbatim>\<open>weights.get(symbol, 0)\<close> on the weight dictionary.\<close>

definition weight_of :: "weights \<Rightarrow> string \<Rightarrow> real" where
  "weight_of ws symbol = (case map_of ws symbol of None \<Rightarrow> 0 | Some w \<Rightarrow> w)"

text \<open>
  \<^verbatim>\<open>OptimizationService._calculate_portfolio_metrics\<close>. For a covariance matrix the
  quadratic form under the root is not negative.
\<close>

definition calculate_portfolio_metrics ::
  "weights \<Rightarrow> (string \<times> real) list \<Rightarrow> real list list \<Rightarrow> portfolio_metrics" where
  "calculate_portfolio_metrics ws mu S =
     (let weights_array = map (\<lambda>(symbol, m). weight_of ws symbol) mu;
          expected_return = sum_list (map2 (*) weights_array (map snd mu));
          volatility = sqrt (dot weights_array (map (\<lambda>row. dot row weights_array) S));
          risk_free_rate = 2 / 100;
          sharpe_ratio = (if volatility > 0 then (expected_return - risk_free_rate) / volatility
                          else 0)
      in \<lparr>pm_expected_return = expected_return, pm_volatility = volatility,
          pm_sharpe_ratio = sharpe_ratio, pm_max_drawdown = None, pm_cvar = None,
          pm_weights = ws\<rparr>)"

text \<open>
  \<^verbatim>\<open>np.linspace(start, stop, num)\<close> for \<open>num \<ge> 0\<close>. The minimum and maximum of an empty
  \<open>mu\<close> are NaN, and so are all targets then.
\<close>

definition linspace :: "real \<Rightarrow> real \<Rightarrow> nat \<Rightarrow> real list" where
  "linspace start stop num =
     (if num = 0 then []
      else if num = 1 then [start]
      else map (\<lambda>i. start + of_nat i * ((stop - start) / of_nat (num - 1))) [0..<num])"

definition target_returns :: "(string \<times> real) list \<Rightarrow> nat \<Rightarrow> real option list" where
  "target_returns mu num_points =
     (case map snd mu of
        [] \<Rightarrow> replicate num_points None
      | m # ms \<Rightarrow>
          (let min_return = Min (set (m # ms)) * (1 / 10);
               max_return = Max (set (m # ms)) * 2
           in map Some (linspace min_return max_return num_points)))"

text \<open>
  One iteration of either loop: solve for the target, clean with cutoff 0.0001, compute the
  metrics, build the point. \<open>None\<close> when the iteration raises and the target is skipped.
\<close>

definition frontier_point_for ::
  "solver \<Rightarrow> (string \<times> real) list \<Rightarrow> real list list \<Rightarrow> (real \<times> real) option \<Rightarrow> real option
    \<Rightarrow> frontier_point option" where
  "frontier_point_for solve mu S bounds target =
     (case solve bounds (EfficientReturn target) of
        Inl e \<Rightarrow> None
      | Inr raw \<Rightarrow>
          (let cleaned_weights = clean_weights (1 / 10000) raw;
               metrics = calculate_portfolio_metrics cleaned_weights mu S
           in Some \<lparr>fp_expected_return = pm_expected_return metrics,
                    fp_volatility = pm_volatility metrics,
                    fp_sharpe_ratio = pm_sharpe_ratio metrics,
                    fp_weights = cleaned_weights\<rparr>))"

text \<open>
  The list \<^verbatim>\<open>frontier_points\<close> after both loops (lines 306-363): the first pass under the
  bounds 0.001 and 0.95, and, when it gave fewer than five points, a second pass with no
  added bounds appended to it.
\<close>

definition frontier_points ::
  "solver \<Rightarrow> (string \<times> real) list \<Rightarrow> real list list \<Rightarrow> nat \<Rightarrow> frontier_point list" where
  "frontier_points solve mu S num_points =
     (let targets = target_returns mu num_points;
          first_pass = List.map_filter
            (frontier_point_for solve mu S (Some (1 / 1000, 95 / 100))) targets
      in if length first_pass < 5
         then first_pass @ List.map_filter (frontier_point_for solve mu S None) targets
         else first_pass)"

definition point_key :: "frontier_point \<Rightarrow> real \<times> real" where
  "point_key point = (np_round 4 (fp_expected_return point), np_round 4 (fp_volatility point))"

text \<open>The deduplication loop (lines 366-372), with its set \<open>seen\<close>.\<close>

fun unique_points :: "(real \<times> real) set \<Rightarrow> frontier_point list \<Rightarrow> frontier_point list" where
  "unique_points seen [] = []"
| "unique_points seen (point # points) =
     (let key = point_key point
      in if key \<notin> seen then point # unique_points (insert key seen) points
         else unique_points seen points)"

text \<open>
  \<^verbatim>\<open>OptimizationService._generate_efficient_frontier\<close>. \<^verbatim>\<open>list.sort\<close> is a stable sort,
  as \<open>sort_key\<close> is. A negative \<open>num_points\<close> makes \<^verbatim>\<open>np.linspace\<close> raise, which the outer
  handler turns into the empty list. The risk configuration is not read.
\<close>

definition generate_efficient_frontier ::
  "solver \<Rightarrow> (string \<times> real) list \<Rightarrow> real list list \<Rightarrow> risk_config \<Rightarrow> int
    \<Rightarrow> frontier_point list" where
  "generate_efficient_frontier solve mu S risk_config num_points =
     (if num_points < 0 then []
      else sort_key fp_volatility
             (unique_points {} (frontier_points solve mu S (nat num_points))))"









section \<open>Rate-limited gateway\<close>

text \<open>
  \<^verbatim>\<open>FinnhubClient\<close> keeps the timestamps of its calls in \<^verbatim>\<open>calls_made\<close>; times are
  seconds as \<^verbatim>\<open>time.time()\<close> gives them.
\<close>

definition max_calls_per_minute :: nat where
  "max_calls_per_minute = 60"

definition rate_limit_window :: real where
  "rate_limit_window = 60"

definition purge :: "real \<Rightarrow> real list \<Rightarrow> real list" where
  "purge current_time calls_made =
     filter (\<lambda>call_time. current_time - call_time < rate_limit_window) calls_made"

text \<open>
  \<^verbatim>\<open>_enforce_rate_limit\<close> has one suspension point, \<^verbatim>\<open>await asyncio.sleep(wait_time)\<close>.
  What runs before it is \<open>rate_limit_enter\<close>: it either records the call and is done, or
  leaves the purged list and the time to sleep. What runs after it is
  \<open>rate_limit_resume\<close>, at the time read on waking.
\<close>

datatype entered = Proceed "real list" | Waiting "real list" real

definition rate_limit_enter :: "real \<Rightarrow> real list \<Rightarrow> entered" where
  "rate_limit_enter current_time calls_made =
     (let calls_made = purge current_time calls_made
      in if length calls_made \<ge> max_calls_per_minute
         then
           (let oldest_call = Min (set calls_made);
                wait_time = rate_limit_window - (current_time - oldest_call) + 1
            in if wait_time > 0 then Waiting calls_made wait_time
               else Proceed (calls_made @ [current_time]))
         else Proceed (calls_made @ [current_time]))"

definition rate_limit_resume :: "real \<Rightarrow> real list \<Rightarrow> real list" where
  "rate_limit_resume current_time calls_made = purge current_time calls_made @ [current_time]"

text \<open>
  One call that runs from entry to return with no other call in between: \<open>t_enter\<close> is the
  clock at entry and \<open>t_wake\<close> the clock after the sleep, if there is one.
\<close>

definition enforce_rate_limit :: "real \<Rightarrow> real \<Rightarrow> real list \<Rightarrow> real list" where
  "enforce_rate_limit t_enter t_wake calls_made =
     (case rate_limit_enter t_enter calls_made of
        Proceed calls \<Rightarrow> calls
      | Waiting calls wait_time \<Rightarrow> rate_limit_resume t_wake calls)"

text \<open>
  A sequence of such calls, one after the other. The state is \<^verbatim>\<open>calls_made\<close> together
  with the history of every timestamp ever recorded, which the program itself forgets.
\<close>

fun run_calls :: "(real \<times> real) list \<Rightarrow> real list \<times> real list \<Rightarrow> real list \<times> real list" where
  "run_calls [] state = state"
| "run_calls ((t_enter, t_wake) # rest) (calls_made, history) =
     (let calls = enforce_rate_limit t_enter t_wake calls_made
      in run_calls rest (calls, history @ [last calls]))"

text \<open>
  What the environment guarantees for such a sequence: the clock does not run backwards,
  and a sleep lasts at least the time asked for.
\<close>

fun clock_ok :: "real \<Rightarrow> (real \<times> real) list \<Rightarrow> real list \<Rightarrow> bool" where
  "clock_ok now [] calls_made = True"
| "clock_ok now ((t_enter, t_wake) # rest) calls_made =
     (now \<le> t_enter \<and>
      (case rate_limit_enter t_enter calls_made of
         Proceed calls \<Rightarrow> clock_ok t_enter rest calls
       | Waiting calls wait_time \<Rightarrow>
           t_enter + wait_time \<le> t_wake \<and> clock_ok t_wake rest (rate_limit_resume t_wake calls)))"

text \<open>A recorded call at time \<open>c\<close> lies in the window that trails time \<open>T\<close>.\<close>

definition in_window :: "real \<Rightarrow> real \<Rightarrow> bool" where
  "in_window T c = (T - c < rate_limit_window \<and> c \<le> T)"

text \<open>
  The invariant of a sequence of calls: \<^verbatim>\<open>calls_made\<close> is the part of the history still
  inside the window, it holds at most 60 timestamps, and so does every trailing window of
  the history.
\<close>

definition limiter_inv :: "real \<Rightarrow> real list \<Rightarrow> real list \<Rightarrow> bool" where
  "limiter_inv now calls history =
     (calls = purge now history \<and> length calls \<le> max_calls_per_minute
      \<and> (\<forall>T. length (filter (in_window T) history) \<le> max_calls_per_minute))"

section \<open>Risk metrics\<close>

text \<open>
  The two risk metrics compute in pandas and numpy on 64-bit floats, and a zero price makes
  a return infinite or not a number. A float is a real number, an infinity or NaN; the
  arithmetic on the special values is that of IEEE 754, and on real numbers it is exact
  (rounding and overflow are left out). A zero is the positive zero.
\<close>

datatype float64 = Finite real | PosInf | NegInf | NaN

fun fneg :: "float64 \<Rightarrow> float64" where
  "fneg (Finite a) = Finite (- a)"
| "fneg PosInf = NegInf"
| "fneg NegInf = PosInf"
| "fneg NaN = NaN"

fun fadd :: "float64 \<Rightarrow> float64 \<Rightarrow> float64" where
  "fadd (Finite a) (Finite b) = Finite (a + b)"
| "fadd NaN y = NaN"
| "fadd x NaN = NaN"
| "fadd PosInf NegInf = NaN"
| "fadd NegInf PosInf = NaN"
| "fadd PosInf y = PosInf"
| "fadd x PosInf = PosInf"
| "fadd NegInf y = NegInf"
| "fadd x NegInf = NegInf"

definition fsub :: "float64 \<Rightarrow> float64 \<Rightarrow> float64" where
  "fsub x y = fadd x (fneg y)"

fun fsign :: "float64 \<Rightarrow> real" where
  "fsign (Finite a) = sgn a"
| "fsign PosInf = 1"
| "fsign NegInf = - 1"
| "fsign NaN = 0"

text \<open>An infinity times zero is NaN; otherwise an infinite product has the product's sign.\<close>

fun fmul :: "float64 \<Rightarrow> float64 \<Rightarrow> float64" where
  "fmul (Finite a) (Finite b) = Finite (a * b)"
| "fmul NaN y = NaN"
| "fmul x NaN = NaN"
| "fmul x y =
     (if fsign x * fsign y = 0 then NaN else if fsign x * fsign y > 0 then PosInf else NegInf)"

text \<open>
  Zero by zero is NaN and any other number by zero an infinity of its sign; a number by an
  infinity is zero, and an infinity by an infinity NaN.
\<close>

fun fdiv :: "float64 \<Rightarrow> float64 \<Rightarrow> float64" where
  "fdiv (Finite a) (Finite b) =
     (if b \<noteq> 0 then Finite (a / b)
      else if a = 0 then NaN else if a > 0 then PosInf else NegInf)"
| "fdiv NaN y = NaN"
| "fdiv x NaN = NaN"
| "fdiv (Finite a) y = Finite 0"
| "fdiv x (Finite b) = (if b \<ge> 0 then x else fneg x)"
| "fdiv x y = NaN"

fun fabs :: "float64 \<Rightarrow> float64" where
  "fabs (Finite a) = Finite \<bar>a\<bar>"
| "fabs PosInf = PosInf"
| "fabs NegInf = PosInf"
| "fabs NaN = NaN"

text \<open>The comparison \<^verbatim>\<open><=\<close> of floats; it is false when either side is NaN.\<close>

fun fle :: "float64 \<Rightarrow> float64 \<Rightarrow> bool" where
  "fle (Finite a) (Finite b) = (a \<le> b)"
| "fle NaN y = False"
| "fle x NaN = False"
| "fle NegInf y = True"
| "fle x PosInf = True"
| "fle x y = False"

text \<open>
  What \<^verbatim>\<open>_calculate_max_drawdown\<close> and \<^verbatim>\<open>_calculate_cvar\<close> return: \<^verbatim>\<open>None\<close> when the
  body raised, otherwise a float.
\<close>

datatype metric = Null | Value float64

text \<open>
  \<^verbatim>\<open>DataFrame.pct_change()\<close> on one column, as pandas before version 3 computes it:
  missing cells are filled forward, then each cell is \<open>price[t] / price[t-1] - 1\<close> in float
  arithmetic; the first cell, and any cell next to a cell still missing, is NaN. A frame's
  columns have the length of its index.
\<close>

fun ffill_from :: "real option \<Rightarrow> real option list \<Rightarrow> real option list" where
  "ffill_from prev [] = []"
| "ffill_from prev (c # cs) =
     (case c of None \<Rightarrow> prev # ffill_from prev cs | Some v \<Rightarrow> Some v # ffill_from (Some v) cs)"

definition pct_change_column :: "real option list \<Rightarrow> float64 list" where
  "pct_change_column cells =
     (let filled = ffill_from None cells
      in if filled = [] then []
         else NaN # map2 (\<lambda>p q. case (p, q) of
                                  (Some a, Some b) \<Rightarrow> fsub (fdiv (Finite b) (Finite a)) (Finite 1)
                                | (x, y) \<Rightarrow> NaN)
                      filled (tl filled))"

text \<open>\<^verbatim>\<open>.dropna()\<close>: the rows of the frame with no NaN cell; an infinite cell stays.\<close>

definition dropna_rows :: "nat \<Rightarrow> float64 list list \<Rightarrow> float64 list list" where
  "dropna_rows n columns =
     filter (\<lambda>row. NaN \<notin> set row) (map (\<lambda>i. map (\<lambda>column. column ! i) columns) [0..<n])"

text \<open>One entry of \<^verbatim>\<open>returns.dot(weights_array)\<close>: the sum of the products of a row.\<close>

definition np_dot :: "float64 list \<Rightarrow> real list \<Rightarrow> float64" where
  "np_dot row ws = foldl fadd (Finite 0) (map2 (\<lambda>x w. fmul x (Finite w)) row ws)"

text \<open>
  The portfolio's daily returns (lines 407-409 and 428-430): the rows of returns times the
  weights taken in the order of the columns, a symbol without a weight counting 0.
\<close>

definition portfolio_returns :: "dataframe \<Rightarrow> weights \<Rightarrow> float64 list" where
  "portfolio_returns historical_data ws =
     (let returns = dropna_rows (length (df_index historical_data))
                      (map (\<lambda>(symbol, cells). pct_change_column cells)
                         (df_columns historical_data));
          weights_array = map (\<lambda>(symbol, cells). weight_of ws symbol)
                            (df_columns historical_data)
      in map (\<lambda>row. np_dot row weights_array) returns)"

text \<open>
  \<^verbatim>\<open>Series.cumprod()\<close>: \<^verbatim>\<open>np.cumprod\<close> over the values with every NaN replaced by 1, and
  NaN put back where it stood.
\<close>

fun np_cumprod_from :: "float64 \<Rightarrow> float64 list \<Rightarrow> float64 list" where
  "np_cumprod_from acc [] = []"
| "np_cumprod_from acc (x # xs) = fmul acc x # np_cumprod_from (fmul acc x) xs"

definition np_cumprod :: "float64 list \<Rightarrow> float64 list" where
  "np_cumprod xs = (case xs of [] \<Rightarrow> [] | x # rest \<Rightarrow> x # np_cumprod_from x rest)"

definition cumprod :: "float64 list \<Rightarrow> float64 list" where
  "cumprod xs =
     map2 (\<lambda>x acc. if x = NaN then NaN else acc) xs
       (np_cumprod (map (\<lambda>x. if x = NaN then Finite 1 else x) xs))"

text \<open>
  \<^verbatim>\<open>Series.expanding().max()\<close>, as the window aggregation of pandas 1 and 2 computes
  it: a queue of candidates, here with its back first, into which a value is pushed after
  the candidates it is not below, and the NaN candidates, are popped from the back; a NaN
  compares as minus infinity and is not counted. The output is the front of the queue once
  one value has been counted, and NaN before.
\<close>

definition push_max :: "float64 \<Rightarrow> float64 list \<Rightarrow> float64 list" where
  "push_max v q =
     (let ai = (if v = NaN then NegInf else v)
      in v # dropWhile (\<lambda>back. fle back ai \<or> back = NaN) q)"

fun roll_max :: "float64 list \<Rightarrow> nat \<Rightarrow> float64 list \<Rightarrow> float64 list" where
  "roll_max q nobs [] = []"
| "roll_max q nobs (v # vs) =
     (let nobs = (if v = NaN then nobs else nobs + 1);
          q = push_max v q
      in (if nobs \<ge> 1 then last q else NaN) # roll_max q nobs vs)"

definition expanding_max :: "float64 list \<Rightarrow> float64 list" where
  "expanding_max xs = roll_max [] 0 xs"

text \<open>Floats without NaN in ascending order.\<close>

fun finsert :: "float64 \<Rightarrow> float64 list \<Rightarrow> float64 list" where
  "finsert x [] = [x]"
| "finsert x (y # ys) = (if fle x y then x # y # ys else y # finsert x ys)"

definition fsort :: "float64 list \<Rightarrow> float64 list" where
  "fsort xs = foldr finsert xs []"

text \<open>\<^verbatim>\<open>Series.min()\<close>: the least value that is not NaN, and NaN when there is none.\<close>

definition nanmin :: "float64 list \<Rightarrow> float64" where
  "nanmin xs = (case fsort (filter (\<lambda>x. x \<noteq> NaN) xs) of [] \<Rightarrow> NaN | m # rest \<Rightarrow> m)"

text \<open>
  \<^verbatim>\<open>OptimizationService._calculate_max_drawdown\<close>. Whether pandas raises on an empty
  series of returns depends on its version, which \<open>empty_raises\<close> says; the handler turns
  the exception into \<^verbatim>\<open>None\<close>.
\<close>

definition calculate_max_drawdown :: "bool \<Rightarrow> dataframe \<Rightarrow> weights \<Rightarrow> metric" where
  "calculate_max_drawdown empty_raises historical_data ws =
     (let returns = portfolio_returns historical_data ws;
          cumulative = cumprod (map (fadd (Finite 1)) returns);
          running_max = expanding_max cumulative;
          drawdowns = map2 (\<lambda>c m. fdiv (fsub c m) m) cumulative running_max
      in if returns = [] \<and> empty_raises then Null
         else Value (fabs (nanmin drawdowns)))"

text \<open>
  \<^verbatim>\<open>np.percentile(xs, q)\<close> of a non-empty array for \<open>0 \<le> q \<le> 100\<close>, as numpy from
  version 1.22 computes it: NaN when the array holds one; otherwise the interpolation
  \<open>lerp\<close> between the two sorted values around the virtual index \<open>(n - 1) * q / 100\<close>, and
  at the last index between the last value and itself.
\<close>

definition lerp :: "float64 \<Rightarrow> float64 \<Rightarrow> real \<Rightarrow> float64" where
  "lerp a b t =
     (if t \<ge> 1 / 2 then fsub b (fmul (fsub b a) (Finite (1 - t)))
      else fadd a (fmul (fsub b a) (Finite t)))"

definition percentile :: "float64 list \<Rightarrow> real \<Rightarrow> float64" where
  "percentile xs q =
     (let s = fsort xs;
          n = length s;
          virtual_index = real (n - 1) * (q / 100)
      in if NaN \<in> set xs then NaN
         else if virtual_index \<ge> real (n - 1) then lerp (last s) (last s) (virtual_index + 1)
         else (let previous = nat \<lfloor>virtual_index\<rfloor>
               in lerp (s ! previous) (s ! (previous + 1)) (virtual_index - real previous)))"

text \<open>\<^verbatim>\<open>Series.mean()\<close> of a non-empty series without NaN.\<close>

definition mean :: "float64 list \<Rightarrow> float64" where
  "mean xs = fdiv (foldl fadd (Finite 0) xs) (Finite (real (length xs)))"

text \<open>
  \<^verbatim>\<open>OptimizationService._calculate_cvar\<close>. \<^verbatim>\<open>np.percentile\<close> raises for a percentile
  outside \<open>[0, 100]\<close>; on an empty array it raises or gives NaN depending on the numpy
  version, which \<open>empty_raises\<close> says.
\<close>

definition calculate_cvar :: "bool \<Rightarrow> dataframe \<Rightarrow> weights \<Rightarrow> real \<Rightarrow> metric" where
  "calculate_cvar empty_raises historical_data ws confidence =
     (let returns = portfolio_returns historical_data ws;
          q = confidence * 100
      in if q < 0 \<or> 100 < q then Null
         else if returns = [] \<and> empty_raises then Null
         else
           (let var = (if returns = [] then NaN else percentile returns q);
                cvar_returns = filter (\<lambda>r. fle r var) returns;
                cvar = (if length cvar_returns > 0 then mean cvar_returns else var)
            in Value (fabs (fmul cvar (Finite (sqrt 252))))))"

text \<open>
  A dataset of at least two rows in which every symbol's price is present, is not zero and
  never moves.
\<close>

definition constant_prices :: "dataframe \<Rightarrow> bool" where
  "constant_prices historical_data =
     (2 \<le> length (df_index historical_data)
      \<and> list_all (\<lambda>(symbol, cells).
            case hd cells of
              None \<Rightarrow> False
            | Some p \<Rightarrow>
                p \<noteq> 0 \<and> cells = replicate (length (df_index historical_data)) (Some p))
          (df_columns historical_data))"

text \<open>
  Example frames: three symbols whose price never moves; one symbol that rises from 100
  to 110 and falls to 99; a symbol whose price passes through zero beside one that stays
  at 50; and a frame of a single row.
\<close>

definition constant_frame :: dataframe where
  "constant_frame =
     \<lparr>df_index = [0, 1, 2],
      df_columns = [(''AAPL'', [Some 100, Some 100, Some 100]),
                    (''MSFT'', [Some 50, Some 50, Some 50]),
                    (''GOOGL'', [Some 20, Some 20, Some 20])]\<rparr>"

definition third_weights :: weights where
  "third_weights = [(''AAPL'', 1 / 3), (''MSFT'', 1 / 3), (''GOOGL'', 1 / 3)]"

definition dip_frame :: dataframe where
  "dip_frame = \<lparr>df_index = [0, 1, 2], df_columns = [(''AAPL'', [Some 100, Some 110, Some 99])]\<rparr>"

definition zero_price_frame :: dataframe where
  "zero_price_frame =
     \<lparr>df_index = [0, 1, 2, 3],
      df_columns = [(''AAPL'', [Some 100, Some 0, Some 50, Some 60]),
                    (''MSFT'', [Some 50, Some 50, Some 50, Some 50])]\<rparr>"

definition one_row_frame :: dataframe where
  "one_row_frame = \<lparr>df_index = [0], df_columns = [(''AAPL'', [Some 100])]\<rparr>"

section \<open>Holdings and quotes\<close>

text \<open>
  \<^verbatim>\<open>Holding\<close> and \<^verbatim>\<open>HoldingWithMetrics\<close>; the purchase date is carried along unread
  and left out. Quantity and purchase price are validated positive when a holding is made.
\<close>

record holding =
  h_id :: string
  h_symbol :: string
  h_quantity :: real
  h_buy_price :: real

record holding_with_metrics = holding +
  h_current_price :: real
  h_value :: real
  h_gain_loss :: real
  h_gain_loss_percent :: real

text \<open>
  The quote provider: what \<^verbatim>\<open>FinnhubClient.get_quote(symbol)\<close> yields for one external
  request, the price or nothing. The session store caches a price with the time it was
  fetched; \<^verbatim>\<open>_is_cache_valid\<close> keeps it for 300 seconds.
\<close>

type_synonym quote_source = "string \<Rightarrow> real option"

type_synonym market_cache = "string \<Rightarrow> (real \<times> datetime) option"

definition is_cache_valid :: "datetime \<Rightarrow> real \<times> datetime \<Rightarrow> bool" where
  "is_cache_valid now cached_data = (now - snd cached_data < timedelta_seconds 300)"

text \<open>
  \<^verbatim>\<open>PortfolioService.get_holdings_with_current_prices\<close>: the holdings with metrics, the
  market cache afterwards and the symbols for which a quote was requested. The order of
  \<^verbatim>\<open>list(set(...))\<close> is taken as first occurrence; \<open>variation\<close> is the random draw used
  when no quote is to be had.
\<close>

definition get_holdings_with_current_prices ::
  "quote_source \<Rightarrow> (holding \<Rightarrow> real) \<Rightarrow> datetime \<Rightarrow> holding list \<Rightarrow> market_cache
    \<Rightarrow> holding_with_metrics list \<times> market_cache \<times> string list" where
  "get_holdings_with_current_prices quote variation now hs mcache =
     (if hs = [] then ([], mcache, [])
      else
        (let symbols = remdups (map h_symbol hs);
             cached = (\<lambda>symbol. case mcache symbol of
                          None \<Rightarrow> None
                        | Some d \<Rightarrow> if is_cache_valid now d then Some (fst d) else None);
             symbols_to_fetch = filter (\<lambda>symbol. cached symbol = None) symbols;
             fresh_quotes = map (\<lambda>symbol. (symbol, quote symbol)) symbols_to_fetch;
             quotes = (\<lambda>symbol. case map_of fresh_quotes symbol of
                          Some q \<Rightarrow> q
                        | None \<Rightarrow> cached symbol);
             mcache' = fold (\<lambda>(symbol, q) c. case q of None \<Rightarrow> c
                                              | Some price \<Rightarrow> c(symbol \<mapsto> (price, now)))
                         fresh_quotes mcache;
             holdings_with_metrics = map (\<lambda>h.
               (let estimated = h_buy_price h * (1 + variation h);
                    current_price = (case quotes (h_symbol h) of
                                       None \<Rightarrow> estimated
                                     | Some price \<Rightarrow> if price > 0 then price else estimated)
                in \<lparr>h_id = h_id h, h_symbol = h_symbol h, h_quantity = h_quantity h,
                    h_buy_price = h_buy_price h, h_current_price = current_price,
                    h_value = h_quantity h * current_price,
                    h_gain_loss = h_quantity h * (current_price - h_buy_price h),
                    h_gain_loss_percent =
                      ((current_price - h_buy_price h) / h_buy_price h) * 100\<rparr>)) hs
         in (holdings_with_metrics, mcache', symbols_to_fetch)))"

text \<open>\<^verbatim>\<open>PortfolioService.get_holdings_with_provided_prices\<close>: no external request.\<close>

definition get_holdings_with_provided_prices ::
  "(string \<times> real) list \<Rightarrow> holding list \<Rightarrow> holding_with_metrics list" where
  "get_holdings_with_provided_prices prices hs =
     (if hs = [] then []
      else map (\<lambda>h.
        (let current_price = (case map_of prices (h_symbol h) of
                                None \<Rightarrow> h_buy_price h | Some price \<Rightarrow> price);
             v = h_quantity h * current_price;
             gain_loss = v - h_quantity h * h_buy_price h
         in \<lparr>h_id = h_id h, h_symbol = h_symbol h, h_quantity = h_quantity h,
             h_buy_price = h_buy_price h, h_current_price = current_price, h_value = v,
             h_gain_loss = gain_loss,
             h_gain_loss_percent = (gain_loss / (h_quantity h * h_buy_price h)) * 100\<rparr>)) hs)"

section \<open>The optimisation run\<close>

text \<open>\<^verbatim>\<open>OptimizationService._calculate_current_weights\<close>.\<close>

definition calculate_current_weights :: "holding_with_metrics list \<Rightarrow> error + weights" where
  "calculate_current_weights hs =
     (let total_value = sum_list (map h_value hs)
      in if total_value \<le> 0 then Inl (ValueError ''Portfolio has no value'')
         else Inr (fold (\<lambda>h ws. AList.update (h_symbol h) (h_value h / total_value) ws) hs []))"

text \<open>\<^verbatim>\<open>OptimizationService._calculate_rebalancing_trades\<close>.\<close>

definition calculate_rebalancing_trades ::
  "weights \<Rightarrow> weights \<Rightarrow> holding_with_metrics list \<Rightarrow> weights" where
  "calculate_rebalancing_trades current optimal hs =
     (let total_value = sum_list (map h_value hs)
      in fold (\<lambda>symbol trades.
           (let weight_diff = weight_of optimal symbol - weight_of current symbol;
                dollar_amount = weight_diff * total_value
            in if \<bar>dollar_amount\<bar> > total_value * (1 / 100)
               then AList.update symbol dollar_amount trades else trades))
           (remdups (map fst current @ map fst optimal)) [])"

record optimization_result =
  optimal_weights :: weights
  res_expected_return :: real
  res_volatility :: real
  res_sharpe_ratio :: real
  res_max_drawdown :: metric
  res_cvar :: metric
  efficient_frontier :: "frontier_point list"
  optimization_method :: string
  res_risk_profile :: string
  res_current_weights :: weights
  rebalancing_trades :: weights
  data_period :: string

text \<open>
  What the service draws from outside: the two data providers, the random draw, the
  library functions that estimate returns and covariance and that solve, and whether the
  installed pandas and numpy raise on an empty series.
\<close>

record environment =
  env_quote :: quote_source
  env_variation :: "holding \<Rightarrow> real"
  env_marketstack_key :: string
  env_eod :: eod_api
  env_mean_historical_return :: "dataframe \<Rightarrow> (string \<times> real) list"
  env_sample_cov :: "dataframe \<Rightarrow> real list list"
  env_solver :: "(string \<times> real) list \<Rightarrow> real list list \<Rightarrow> solver"
  env_drawdown_empty_raises :: bool
  env_percentile_empty_raises :: bool

text \<open>The readings of \<^verbatim>\<open>datetime.now()\<close> during one request, in program order.\<close>

record clock =
  t_api_quote :: datetime
  t_result_check :: datetime
  t_quote :: datetime
  t_hist_start :: datetime
  t_hist_check :: datetime
  t_hist_store :: datetime
  t_result_store :: datetime

text \<open>The session store and the service's caches.\<close>

record service_state =
  store_holdings :: "holding list"
  market_data_cache :: market_cache
  hist_data_cache :: hist_cache
  optimization_cache :: "string \<Rightarrow> optimization_result option"
  cache_timestamp :: "string \<Rightarrow> datetime option"
  active_optimizations :: "string set"

datatype external_request = QuoteRequest string | HistoryRequest string

definition result_cache_key :: "optimization_request \<Rightarrow> string" where
  "result_cache_key request =
     risk_profile request @ ''_'' @ objective request @ ''_''
       @ str_int (lookback_period request)"

definition cache_duration :: int where
  "cache_duration = timedelta_seconds 300"

text \<open>The check for a recent cached result (lines 64-68).\<close>

definition fresh_result ::
  "service_state \<Rightarrow> string \<Rightarrow> datetime \<Rightarrow> optimization_result option" where
  "fresh_result st key now =
     (case optimization_cache st key of
        None \<Rightarrow> None
      | Some cached \<Rightarrow>
          (case cache_timestamp st key of
             None \<Rightarrow> None
           | Some cache_time \<Rightarrow> if now - cache_time < cache_duration then Some cached else None))"

text \<open>Python truthiness of the optional price dictionary.\<close>

definition truthy_prices :: "(string \<times> real) list option \<Rightarrow> bool" where
  "truthy_prices p = (case p of None \<Rightarrow> False | Some d \<Rightarrow> d \<noteq> [])"

text \<open>Lines 84-91: the holdings, from supplied prices or from quotes.\<close>

definition fetch_holdings ::
  "environment \<Rightarrow> clock \<Rightarrow> optimization_request \<Rightarrow> service_state
    \<Rightarrow> holding_with_metrics list \<times> market_cache \<times> string list" where
  "fetch_holdings env clk request st =
     (if truthy_prices (current_prices request)
      then (get_holdings_with_provided_prices
              (case current_prices request of None \<Rightarrow> [] | Some d \<Rightarrow> d) (store_holdings st),
            market_data_cache st, [])
      else get_holdings_with_current_prices (env_quote env) (env_variation env) (t_quote clk)
             (store_holdings st) (market_data_cache st))"

text \<open>
  Lines 93-149 of \<^verbatim>\<open>optimize_portfolio\<close>, from the checks on the holdings to the result;
  an error is the exception raised, before the handler wraps it. The second component is
  the historical-data cache afterwards, the third the symbols requested from Marketstack.
\<close>

definition run_optimization ::
  "environment \<Rightarrow> clock \<Rightarrow> optimization_request \<Rightarrow> holding_with_metrics list \<Rightarrow> hist_cache
    \<Rightarrow> (error + optimization_result) \<times> hist_cache \<times> string list" where
  "run_optimization env clk request hs hcache =
     (if hs = [] then (Inl (ValueError ''No holdings found in portfolio''), hcache, [])
      else if length hs < 3
        then (Inl (ValueError ''Need at least 3 holdings for meaningful optimization''),
              hcache, [])
      else
        (let symbols = map h_symbol hs
         in case calculate_current_weights hs of
              Inl e \<Rightarrow> (Inl e, hcache, [])
            | Inr current_weights \<Rightarrow>
               (case fetch_historical_data (env_marketstack_key env) (env_eod env) hcache
                       (t_hist_start clk) (t_hist_check clk) (t_hist_store clk) symbols
                       (lookback_period request) of
                  (Inl e, hcache', calls) \<Rightarrow> (Inl e, hcache', calls)
                | (Inr historical_data, hcache', calls) \<Rightarrow>
                    if df_empty historical_data
                    then (Inl (ValueError ''No historical data available for optimization''),
                          hcache', calls)
                    else
                      (let mu = env_mean_historical_return env historical_data;
                           S = env_sample_cov env historical_data
                       in case get_risk_config request of
                            Inl e \<Rightarrow> (Inl e, hcache', calls)
                          | Inr risk_config \<Rightarrow>
                             (case optimize_weights (env_solver env mu S) risk_config request of
                                Inl e \<Rightarrow> (Inl e, hcache', calls)
                              | Inr optimal \<Rightarrow>
                                 (let optimal_metrics =
                                        calculate_portfolio_metrics optimal mu S;
                                      frontier = generate_efficient_frontier
                                        (env_solver env mu S) mu S risk_config 20;
                                      trades = calculate_rebalancing_trades
                                        current_weights optimal hs;
                                      max_drawdown =
                                        calculate_max_drawdown (env_drawdown_empty_raises env)
                                          historical_data optimal;
                                      cvar = calculate_cvar (env_percentile_empty_raises env)
                                        historical_data optimal (5 / 100)
                                  in (Inr \<lparr>optimal_weights = optimal,
                                        res_expected_return = pm_expected_return optimal_metrics,
                                        res_volatility = pm_volatility optimal_metrics,
                                        res_sharpe_ratio = pm_sharpe_ratio optimal_metrics,
                                        res_max_drawdown = max_drawdown,
                                        res_cvar = cvar,
                                        efficient_frontier = frontier,
                                        optimization_method = cfg_objective risk_config,
                                        res_risk_profile = risk_profile request,
                                        res_current_weights = current_weights,
                                        rebalancing_trades = trades,
                                        data_period =
                                          str_int (lookback_period request) @ '' days''\<rparr>,
                                      hcache', calls)))))))"

definition optimize_failed :: "error \<Rightarrow> error" where
  "optimize_failed e = ValueError (''Portfolio optimization failed: '' @ str_error e)"

text \<open>The \<^verbatim>\<open>finally\<close> clause: the key leaves the set of active optimisations.\<close>

definition clear_active :: "string \<Rightarrow> service_state \<Rightarrow> service_state" where
  "clear_active key st = st\<lparr>active_optimizations := active_optimizations st - {key}\<rparr>"

text \<open>
  \<^verbatim>\<open>OptimizationService.optimize_portfolio\<close>, run with no other request in between: the
  result or the wrapped error, the state afterwards, and the external requests issued in
  order.
\<close>

definition optimize_portfolio ::
  "environment \<Rightarrow> clock \<Rightarrow> optimization_request \<Rightarrow> service_state
    \<Rightarrow> (error + optimization_result) \<times> service_state \<times> external_request list" where
  "optimize_portfolio env clk request st =
     (let key = result_cache_key request
      in case fresh_result st key (t_result_check clk) of
           Some cached \<Rightarrow> (Inr cached, clear_active key st, [])
         | None \<Rightarrow>
            (case (if key \<in> active_optimizations st then optimization_cache st key else None) of
               Some cached \<Rightarrow> (Inr cached, clear_active key st, [])
             | None \<Rightarrow>
                (let st1 = st\<lparr>active_optimizations := insert key (active_optimizations st)\<rparr>;
                     (hs, mcache, quote_calls) = fetch_holdings env clk request st1;
                     (r, hcache, hist_calls) =
                        run_optimization env clk request hs (hist_data_cache st1);
                     st2 = st1\<lparr>market_data_cache := mcache, hist_data_cache := hcache\<rparr>;
                     trace = map QuoteRequest quote_calls @ map HistoryRequest hist_calls
                 in case r of
                      Inl e \<Rightarrow> (Inl (optimize_failed e), clear_active key st2, trace)
                    | Inr result \<Rightarrow>
                        (Inr result,
                         clear_active key
                           (st2\<lparr>optimization_cache := (optimization_cache st2)(key \<mapsto> result),
                                cache_timestamp :=
                                  (cache_timestamp st2)(key \<mapsto> t_result_store clk)\<rparr>),
                         trace))))"

section \<open>The optimisation endpoint\<close>

text \<open>
  The two handlers of the route (lines 65-70): a \<^verbatim>\<open>ValueError\<close> becomes status 400, any
  other exception, an \<^verbatim>\<open>HTTPException\<close> raised in the body included, status 500.
\<close>

fun route_handler :: "error \<Rightarrow> error" where
  "route_handler (ValueError msg) = HTTPException 400 msg"
| "route_handler e = HTTPException 500 (''Optimization failed: '' @ str_error e)"

text \<open>The route \<^verbatim>\<open>POST /api/optimization/optimize\<close> of \<^verbatim>\<open>api/optimization.py\<close>.\<close>

definition api_optimize_portfolio ::
  "environment \<Rightarrow> clock \<Rightarrow> optimization_request \<Rightarrow> service_state
    \<Rightarrow> (error + optimization_result) \<times> service_state \<times> external_request list" where
  "api_optimize_portfolio env clk request st =
     (if risk_profile request \<notin> set [''conservative'', ''moderate'', ''aggressive'']
      then (Inl (route_handler (HTTPException 400
              (''Invalid risk profile. Must be 'conservative', 'moderate', or 'aggressive''
                 @ [CHR 0x27]))),
            st, [])
      else if objective request \<notin> set [''max_sharpe'', ''min_volatility'', ''efficient_return'']
      then (Inl (route_handler (HTTPException 400
              (''Invalid objective. Must be 'max_sharpe', 'min_volatility', ''
                 @ ''or 'efficient_return'' @ [CHR 0x27]))),
            st, [])
      else if objective request = ''efficient_return'' \<and> \<not> truthy_opt (target_return request)
      then (Inl (route_handler (HTTPException 400
              (''target_return is required when objective is 'efficient_return''
                 @ [CHR 0x27]))),
            st, [])
      else
        (let (hs, mcache, quote_calls) =
               get_holdings_with_current_prices (env_quote env) (env_variation env)
                 (t_api_quote clk) (store_holdings st) (market_data_cache st);
             st1 = st\<lparr>market_data_cache := mcache\<rparr>
         in if hs = []
            then (Inl (route_handler (HTTPException 400
                    ''No holdings found in portfolio. Please add some holdings first.'')),
                  st1, map QuoteRequest quote_calls)
            else if length hs < 3
            then (Inl (route_handler (HTTPException 400
                    (''Need at least 3 holdings for optimization. Current holdings: ''
                       @ str_nat (length hs)))),
                  st1, map QuoteRequest quote_calls)
            else
              (case optimize_portfolio env clk request st1 of
                 (Inl e, st2, calls) \<Rightarrow>
                    (Inl (route_handler e), st2, map QuoteRequest quote_calls @ calls)
               | (Inr result, st2, calls) \<Rightarrow>
                    (Inr result, st2, map QuoteRequest quote_calls @ calls))))"

text \<open>
  The route \<^verbatim>\<open>POST /api/optimization/compare\<close>: it hands the request to the service
  with no check of its own and pairs the current weights with the optimised metrics.
\<close>

fun compare_handler :: "error \<Rightarrow> error" where
  "compare_handler (ValueError msg) = HTTPException 400 msg"
| "compare_handler e = HTTPException 500 (''Failed to compare portfolios: '' @ str_error e)"

definition api_compare_portfolios ::
  "environment \<Rightarrow> clock \<Rightarrow> optimization_request \<Rightarrow> service_state
    \<Rightarrow> (error + portfolio_metrics \<times> portfolio_metrics) \<times> service_state
        \<times> external_request list" where
  "api_compare_portfolios env clk request st =
     (case optimize_portfolio env clk request st of
        (Inl e, st', calls) \<Rightarrow> (Inl (compare_handler e), st', calls)
      | (Inr result, st', calls) \<Rightarrow>
          (Inr (\<lparr>pm_expected_return = 0, pm_volatility = 0, pm_sharpe_ratio = 0,
                 pm_max_drawdown = None, pm_cvar = None,
                 pm_weights = res_current_weights result\<rparr>,
                \<lparr>pm_expected_return = res_expected_return result,
                 pm_volatility = res_volatility result,
                 pm_sharpe_ratio = res_sharpe_ratio result,
                 pm_max_drawdown = None, pm_cvar = None,
                 pm_weights = optimal_weights result\<rparr>),
           st', calls))"





definition no_target_request :: optimization_request where
  "no_target_request =
     \<lparr>risk_profile = ''moderate'', objective = ''efficient_return'', target_return = None,
      lookback_period = 252, min_weight = 1 / 100, max_weight = 4 / 10,
      current_prices = None\<rparr>"

section \<open>Risk configuration\<close>

text \<open>
  C10. For a request whose risk profile exists, \<^verbatim>\<open>_get_risk_config\<close> succeeds and
  each overridable field of the result is the request's value when that value is truthy and
  the profile's default otherwise. In particular a supplied \<open>target_return = 0.0\<close>, a supplied
  \<open>min_weight = 0\<close> and an empty objective string are replaced by the profile defaults.
\<close>

theorem get_risk_config_zero_not_override:
  assumes "RISK_PROFILES (risk_profile request) = Some profile"
  shows "\<exists>config. get_risk_config request = Inr config
    \<and> cfg_target_return config =
        (if truthy_opt (target_return request) then target_return request
         else cfg_target_return profile)
    \<and> cfg_min_weight config =
        (if truthy_num (min_weight request) then min_weight request else cfg_min_weight profile)
    \<and> cfg_max_weight config =
        (if truthy_num (max_weight request) then max_weight request else cfg_max_weight profile)
    \<and> cfg_objective config =
        (if truthy_str (objective request) then objective request else cfg_objective profile)
    \<and> (target_return request = Some 0 \<longrightarrow> cfg_target_return config = cfg_target_return profile)
    \<and> (min_weight request = 0 \<longrightarrow> cfg_min_weight config = cfg_min_weight profile)
    \<and> (objective request = [] \<longrightarrow> cfg_objective config = cfg_objective profile)"
  using assms
  by (simp add: get_risk_config_def Let_def truthy_opt_def truthy_num_def truthy_str_def)

theorem get_risk_config_zero_not_override_witness:
  "\<exists>config. get_risk_config
     \<lparr>risk_profile = ''conservative'', objective = [], target_return = Some 0,
      lookback_period = 252, min_weight = 0, max_weight = 1 / 2, current_prices = None\<rparr>
     = Inr config
   \<and> cfg_target_return config = Some (8 / 100) \<and> cfg_min_weight config = 5 / 100
   \<and> cfg_max_weight config = 1 / 2 \<and> cfg_objective config = ''min_volatility''"
  using get_risk_config_zero_not_override
    [of "\<lparr>risk_profile = ''conservative'', objective = [], target_return = Some 0,
          lookback_period = 252, min_weight = 0, max_weight = 1 / 2, current_prices = None\<rparr>"
        conservative_profile]
  by (auto simp add: RISK_PROFILES_def truthy_opt_def truthy_num_def truthy_str_def
      conservative_profile_def)

section \<open>Historical-data cache: lemmas\<close>

lemma set_update_subset: "set (AList.update k v al) \<subseteq> insert (k, v) (set al)"
  by (induction al) auto

lemma fetch_all_nonempty_series:
  "\<forall>(symbol, d) \<in> set acc. d \<noteq> []
    \<Longrightarrow> \<forall>(symbol, d) \<in> set (fetch_all api a b symbols acc). d \<noteq> []"
proof (induction symbols arbitrary: acc)
  case Nil
  then show ?case by simp
next
  case (Cons symbol symbols)
  have "\<forall>(s, d) \<in> set (case api symbol a b of None \<Rightarrow> acc
          | Some d \<Rightarrow> if d \<noteq> [] then AList.update symbol d acc else acc). d \<noteq> []"
    using Cons.prems set_update_subset [of symbol _ acc]
    by (auto split: option.splits)
  then show ?case
    using Cons.IH by simp
qed

lemma DataFrame_not_empty:
  assumes "all_data \<noteq> []" and "\<forall>(symbol, d) \<in> set all_data. d \<noteq> []"
  shows "\<not> df_empty (sort_index (DataFrame all_data))"
proof -
  obtain symbol d rest where ad: "all_data = (symbol, d) # rest"
    using assms(1) by (cases all_data) auto
  with assms(2) have "d \<noteq> []" by simp
  then have "concat (map (\<lambda>(symbol, d). map fst d) all_data) \<noteq> []"
    using ad by simp
  then have "remdups (concat (map (\<lambda>(symbol, d). map fst d) all_data)) \<noteq> []"
    by simp
  then have "sort (remdups (concat (map (\<lambda>(symbol, d). map fst d) all_data))) \<noteq> []"
    by (metis length_sort length_0_conv)
  then show ?thesis
    using assms(1) by (simp add: df_empty_def sort_index_def DataFrame_def Let_def)
qed

lemma get_historical_data_not_empty:
  assumes "get_historical_data api_key api symbols a b = (Inr df, calls)"
  shows "\<not> df_empty df"
proof -
  have ne: "fetch_all api a b symbols [] \<noteq> []"
    and df: "df = sort_index (DataFrame (fetch_all api a b symbols []))"
    using assms by (auto simp: get_historical_data_def Let_def split: if_splits)
  have "\<forall>(symbol, d) \<in> set (fetch_all api a b symbols []). d \<noteq> []"
    by (rule fetch_all_nonempty_series) simp
  with ne df show ?thesis
    using DataFrame_not_empty by blast
qed

lemma td_seconds_within_hour:
  assumes "0 \<le> delta" and "delta < timedelta_seconds 3600"
  shows "td_seconds delta < cache_timeout"
proof -
  have "delta div 1000000 < 3600"
    using assms by (simp add: timedelta_seconds_def div_less_iff_less_mult)
  moreover have "0 \<le> delta div 1000000"
    using assms(1) by (simp add: pos_imp_zdiv_nonneg_iff)
  ultimately show ?thesis
    by (simp add: td_seconds_def cache_timeout_def)
qed

lemma cache_key_mset:
  assumes "mset symbols2 = mset symbols1"
  shows "cache_key symbols2 n = cache_key symbols1 n"
proof -
  have "sort symbols2 = sort symbols1"
    using assms by (metis properties_for_sort mset_sort sorted_sort)
  then show ?thesis by (simp add: cache_key_def)
qed

lemma fetch_historical_data_hit:
  assumes "cache_check cache (cache_key symbols n) t_check = Some df"
  shows "fetch_historical_data api_key api cache t_start t_check t_store symbols n
         = (Inr df, cache, [])"
  using assms by (simp add: fetch_historical_data_def Let_def)

lemma fetch_historical_data_stores:
  assumes "cache_check cache (cache_key symbols n) t_check = None"
    and "fetch_historical_data api_key api cache t_start t_check t_store symbols n
         = (Inr df, cache', calls)"
  shows "cache' = cache(cache_key symbols n \<mapsto> (df, t_store))"
  using assms
  by (auto simp: fetch_historical_data_def Let_def split: prod.splits sum.splits if_splits)

section \<open>Historical-data cache: time to live\<close>

text \<open>
  C4. The freshness test reads \<^verbatim>\<open>timedelta.seconds\<close>, the seconds component of the age,
  not the whole age. An entry stored one day and ten seconds ago therefore passes the test
  \<open>seconds < 3600\<close>: the fetch returns the stored dataset, keeps the cache and issues no
  external request, whatever the transport would have returned.
\<close>

theorem fetch_historical_data_serves_day_old_entry:
  "fetch_historical_data api_key api ((\<lambda>k. None)(cache_key symbols n \<mapsto> (df, t0)))
     t_start (t0 + timedelta_days 1 + timedelta_seconds 10) t_store symbols n
   = (Inr df, (\<lambda>k. None)(cache_key symbols n \<mapsto> (df, t0)), [])"
  by (rule fetch_historical_data_hit)
    (simp add: cache_check_def td_seconds_def timedelta_days_def timedelta_seconds_def
      cache_timeout_def)

text \<open>
  C5, as stated: the second of two fetches with identical symbol sets and lookback, within
  the hour, issues no external request. It fails when the two symbol lists hold the same set
  with different multiplicities: after a fetch of MSFT, AAPL, GOOGL, a fetch of MSFT, AAPL,
  AAPL, GOOGL thirty minutes later has another cache key and goes to the transport.
\<close>

theorem fetch_historical_data_same_set_counterexample:
  "set [''MSFT'', ''AAPL'', ''AAPL'', ''GOOGL''] = set [''MSFT'', ''AAPL'', ''GOOGL'']
   \<and> succeeded (fst first_fetch)
   \<and> snd (snd (fetch_historical_data ''key'' flat_api (fst (snd first_fetch))
        (timedelta_seconds 1800) (timedelta_seconds 1800) (timedelta_seconds 1800)
        [''MSFT'', ''AAPL'', ''AAPL'', ''GOOGL''] 252))
     = [''MSFT'', ''AAPL'', ''AAPL'', ''GOOGL'']"
  by code_simp

text \<open>
  C5, amended. If a fetch missed the cache, succeeded and so stored its dataset, then a
  later fetch for the same symbols with the same multiplicities (in any order) and the same
  lookback, checked at an age of at least zero and less than one hour, returns that dataset,
  leaves the cache as it is and issues no external request, whatever transport it is given.
\<close>

theorem fetch_historical_data_idempotent:
  assumes "cache_check cache0 (cache_key symbols1 n) t_check1 = None"
    and "fetch_historical_data api_key api cache0 t_start1 t_check1 t_store1 symbols1 n
         = (Inr df, cache1, calls1)"
    and "mset symbols2 = mset symbols1"
    and "0 \<le> t_check2 - t_store1"
    and "t_check2 - t_store1 < timedelta_seconds 3600"
  shows "fetch_historical_data api_key' api' cache1 t_start2 t_check2 t_store2 symbols2 n
         = (Inr df, cache1, [])"
proof -
  have "cache1 = cache0(cache_key symbols1 n \<mapsto> (df, t_store1))"
    using assms(1,2) by (rule fetch_historical_data_stores)
  then have "cache_check cache1 (cache_key symbols2 n) t_check2 = Some df"
    using td_seconds_within_hour [OF assms(4,5)] cache_key_mset [OF assms(3)]
    by (simp add: cache_check_def)
  then show ?thesis
    by (rule fetch_historical_data_hit)
qed

theorem fetch_historical_data_idempotent_witness:
  "fetch_historical_data [] no_api (fst (snd first_fetch))
     (timedelta_seconds 1800) (timedelta_seconds 1800) (timedelta_seconds 1800)
     [''GOOGL'', ''MSFT'', ''AAPL''] 252
   = (Inr (projr (fst first_fetch)), fst (snd first_fetch), [])"
proof -
  have miss: "cache_check (\<lambda>k. None) (cache_key [''MSFT'', ''AAPL'', ''GOOGL''] 252) 0 = None"
    by (simp add: cache_check_def)
  have ok: "succeeded (fst first_fetch)"
    by code_simp
  have first:
    "fetch_historical_data ''key'' flat_api (\<lambda>k. None) 0 0 0 [''MSFT'', ''AAPL'', ''GOOGL''] 252
     = (Inr (projr (fst first_fetch)), fst (snd first_fetch), snd (snd first_fetch))"
    using ok by (cases "fst first_fetch") (simp_all add: first_fetch_def [symmetric] prod_eq_iff)
  have perm: "mset [''GOOGL'', ''MSFT'', ''AAPL''] = mset [''MSFT'', ''AAPL'', ''GOOGL'']"
    by (simp add: add.commute)
  show ?thesis
    using fetch_historical_data_idempotent [OF miss first perm, of "timedelta_seconds 1800"]
    by (simp add: timedelta_seconds_def)
qed

section \<open>Historical-data cache: insufficient history\<close>

lemma select_columns_names:
  assumes "set names \<subseteq> fst ` set (df_columns df)"
  shows "map fst (df_columns (select_columns df names)) = names"
  using assms
proof (induction names)
  case Nil
  then show ?case by (simp add: select_columns_def List.map_filter_def)
next
  case (Cons n names)
  then obtain v where "map_of (df_columns df) n = Some v"
    by (cases "map_of (df_columns df) n") (auto simp: map_of_eq_None_iff)
  then show ?case
    using Cons by (simp add: select_columns_def List.map_filter_def)
qed

lemma valid_symbols_subset: "set (valid_symbols_of df) \<subseteq> fst ` set (df_columns df)"
  by (auto simp: valid_symbols_of_def)

lemma select_valid_not_empty:
  assumes "\<not> df_empty df" and "valid_symbols_of df \<noteq> []"
  shows "\<not> df_empty (select_columns df (valid_symbols_of df))"
proof -
  have "map fst (df_columns (select_columns df (valid_symbols_of df))) = valid_symbols_of df"
    using valid_symbols_subset by (rule select_columns_names)
  then have "df_columns (select_columns df (valid_symbols_of df)) \<noteq> []"
    using assms(2) by auto
  moreover have "df_index (select_columns df (valid_symbols_of df)) = df_index df"
    by (simp add: select_columns_def)
  ultimately show ?thesis
    using assms(1) by (simp add: df_empty_def)
qed

text \<open>
  C6. Let a fetch miss the cache, and let the symbols that remain be those columns of the
  frame the Marketstack client returns that hold at least 60 valid observations, none when
  the client raises (no API key, or no symbol with data). If fewer than three remain,
  \<^verbatim>\<open>_fetch_historical_data\<close> fails with the \<^verbatim>\<open>ValueError\<close> that wraps the client's
  message or the message for insufficient history, and the cache is returned unchanged.
  Otherwise it returns the frame of the remaining symbols and stores it under the key.
\<close>

theorem fetch_historical_data_insufficient:
  assumes "cache_check cache (cache_key symbols n) t_check = None"
    and "get_historical_data api_key api symbols (t_start - timedelta_days (n + 30)) t_start
         = (fetched, calls)"
  shows "if length (remaining_symbols fetched) < 3
         then fetch_historical_data api_key api cache t_start t_check t_store symbols n
              = (Inl (ValueError (''Failed to fetch historical data: ''
                   @ (case fetched of
                        Inl e \<Rightarrow> str_error e
                      | Inr df \<Rightarrow> ''Insufficient valid historical data for optimization''))),
                 cache, calls)
         else \<exists>df. fetch_historical_data api_key api cache t_start t_check t_store symbols n
                = (Inr df, cache(cache_key symbols n \<mapsto> (df, t_store)), calls)
              \<and> map fst (df_columns df) = remaining_symbols fetched"
proof (cases fetched)
  case (Inl e)
  then show ?thesis
    using assms by (simp add: fetch_historical_data_def remaining_symbols_def fetch_failed_def
        Let_def)
next
  case (Inr df)
  have ne: "\<not> df_empty df"
    using assms(2) Inr get_historical_data_not_empty by blast
  show ?thesis
  proof (cases "length (valid_symbols_of df) < 3")
    case True
    then show ?thesis
      using assms Inr ne
      by (simp add: fetch_historical_data_def remaining_symbols_def fetch_failed_def Let_def)
  next
    case False
    then have "valid_symbols_of df \<noteq> []"
      by auto
    then have "\<not> df_empty (select_columns df (valid_symbols_of df))"
      using ne select_valid_not_empty by blast
    moreover have "map fst (df_columns (select_columns df (valid_symbols_of df)))
        = valid_symbols_of df"
      using valid_symbols_subset by (rule select_columns_names)
    ultimately show ?thesis
      using assms Inr ne False
      by (simp add: fetch_historical_data_def remaining_symbols_def Let_def)
  qed
qed

theorem fetch_historical_data_insufficient_witness:
  "fetch_historical_data ''key'' short_api (\<lambda>k. None) 0 0 0 [''MSFT'', ''AAPL'', ''GOOGL''] 252
   = (Inl (ValueError (''Failed to fetch historical data: ''
             @ ''Insufficient valid historical data for optimization'')),
      (\<lambda>k. None), [''MSFT'', ''AAPL'', ''GOOGL''])
   \<and> fetch_historical_data ''key'' no_api (\<lambda>k. None) 0 0 0 [''MSFT'', ''AAPL'', ''GOOGL''] 252
   = (Inl (ValueError (''Failed to fetch historical data: ''
             @ ''No historical data retrieved from Marketstack'')),
      (\<lambda>k. None), [''MSFT'', ''AAPL'', ''GOOGL''])
   \<and> fetch_historical_data [] flat_api (\<lambda>k. None) 0 0 0 [''MSFT'', ''AAPL'', ''GOOGL''] 252
   = (Inl (ValueError (''Failed to fetch historical data: ''
             @ ''Marketstack API key not configured'')),
      (\<lambda>k. None), [])"
proof -
  let ?syms = "[''MSFT'', ''AAPL'', ''GOOGL'']"
  let ?all = "fetch_all short_api (0 - timedelta_days (252 + 30)) 0 ?syms []"
  have miss: "cache_check (\<lambda>k. None) (cache_key ?syms 252) 0 = None"
    by (simp add: cache_check_def)
  have ne: "?all \<noteq> []"
    by code_simp
  have short: "get_historical_data ''key'' short_api ?syms (0 - timedelta_days (252 + 30)) 0
             = (Inr (sort_index (DataFrame ?all)), ?syms)"
    using ne by (simp add: get_historical_data_def truthy_str_def Let_def)
  have few: "length (remaining_symbols (Inr (sort_index (DataFrame ?all)))) < 3"
    by code_simp
  have none: "get_historical_data ''key'' no_api ?syms (0 - timedelta_days (252 + 30)) 0
             = (Inl (ValueError ''No historical data retrieved from Marketstack''), ?syms)"
    by (simp add: get_historical_data_def truthy_str_def no_api_def Let_def)
  have nokey: "get_historical_data [] flat_api ?syms (0 - timedelta_days (252 + 30)) 0
             = (Inl (ValueError ''Marketstack API key not configured''), [])"
    by (simp add: get_historical_data_def truthy_str_def)
  show ?thesis
    using fetch_historical_data_insufficient [OF miss short, of 0]
      fetch_historical_data_insufficient [OF miss none, of 0]
      fetch_historical_data_insufficient [OF miss nokey, of 0]
      few
    by (simp add: remaining_symbols_def)
qed

section \<open>Mean-variance solver: post-processing\<close>

lemma round_half_even_bounds:
  "\<lfloor>x\<rfloor> \<le> round_half_even x" "round_half_even x \<le> \<lfloor>x\<rfloor> + 1"
  by (simp_all add: round_half_even_def Let_def)

lemma round_half_even_mono:
  assumes "x \<le> y"
  shows "round_half_even x \<le> round_half_even y"
proof (cases "\<lfloor>x\<rfloor> = \<lfloor>y\<rfloor>")
  case True
  then show ?thesis
    using assms by (auto simp: round_half_even_def Let_def)
next
  case False
  then have "\<lfloor>x\<rfloor> + 1 \<le> \<lfloor>y\<rfloor>"
    using floor_mono [OF assms] by linarith
  then show ?thesis
    using round_half_even_bounds(2) [of x] round_half_even_bounds(1) [of y] by linarith
qed

lemma np_round_mono: "x \<le> y \<Longrightarrow> np_round d x \<le> np_round d y"
  by (simp add: np_round_def divide_right_mono round_half_even_mono mult_right_mono)

lemma np_round_zero: "np_round d 0 = 0"
  by (simp add: np_round_def round_half_even_def)

lemma np_round_nonneg: "0 \<le> x \<Longrightarrow> 0 \<le> np_round d x"
  using np_round_mono [of 0 x d] by (simp add: np_round_zero)

lemma sum_list_scaled:
  "sum_list (map snd (map (\<lambda>(symbol, weight). (symbol, weight / t)) ws))
   = sum_list (map snd ws) / (t :: real)"
  by (induction ws) (auto simp: add_divide_distrib)

lemma normalize_weights_sum:
  assumes "0 < sum_list (map snd ws)"
  shows "sum_list (map snd (normalize_weights ws)) = 1"
  using assms by (simp add: normalize_weights_def Let_def sum_list_scaled del: map_map)

lemma clean_weights_fst: "map fst (clean_weights cutoff ws) = map fst ws"
  by (induction ws) (auto simp: clean_weights_def)

lemma normalize_weights_fst: "map fst (normalize_weights ws) = map fst ws"
  by (induction ws) (auto simp: normalize_weights_def Let_def)

lemma normalize_weights_snd:
  "map snd (normalize_weights ws)
   = (if 0 < sum_list (map snd ws) then map (\<lambda>c. c / sum_list (map snd ws)) (map snd ws)
      else map snd ws)"
  by (auto simp: normalize_weights_def Let_def)

lemma clean_weights_snd:
  "map snd (clean_weights cutoff ws)
   = map (\<lambda>w. np_round 5 (if \<bar>w\<bar> < cutoff then 0 else w)) (map snd ws)"
  by (induction ws) (auto simp: clean_weights_def)

text \<open>
  C1, as stated: every returned weight is 0 or within the configured bounds. It fails for
  the request bounds 0.001 and 0.333 on four assets: the only weights within the bounds
  that sum to 1 are 0.333 on three assets and 0.001 on the fourth; the cutoff zeroes the
  0.001, the total is 0.999, and each of the other three is returned as 1/3, above the
  maximum 0.333.
\<close>

theorem optimize_weights_bounds_counterexample:
  "get_risk_config tight_request = Inr tight_config
   \<and> tight_solver (Some (cfg_min_weight tight_config, cfg_max_weight tight_config)) MinVolatility
     = Inr [(''AAPL'', 333 / 1000), (''MSFT'', 333 / 1000), (''GOOGL'', 333 / 1000),
            (''AMZN'', 1 / 1000)]
   \<and> cfg_min_weight tight_config \<le> 1 / 1000 \<and> 333 / 1000 \<le> cfg_max_weight tight_config
   \<and> (333 / 1000 + 333 / 1000 + 333 / 1000 + 1 / 1000 :: real) = 1
   \<and> optimize_weights tight_solver tight_config tight_request
     = Inr [(''AAPL'', 1 / 3), (''MSFT'', 1 / 3), (''GOOGL'', 1 / 3), (''AMZN'', 0)]
   \<and> (1 / 3 :: real) \<noteq> 0 \<and> cfg_max_weight tight_config < 1 / 3"
  by (simp add: get_risk_config_def RISK_PROFILES_def aggressive_profile_def tight_request_def
      tight_config_def tight_solver_def truthy_opt_def truthy_num_def truthy_str_def
      optimize_weights_def objective_call_of_def normalize_weights_def clean_weights_def
      np_round_def round_half_even_def Let_def)

text \<open>
  C1, amended. Let a call to \<^verbatim>\<open>_optimize_weights\<close> succeed: the objective is one of the
  three known and the solver returned weights. Let the cleaned weights be the solver's
  weights with those of absolute value below 0.005 set to 0 and all rounded to five
  decimals, and \<open>total\<close> their sum. The call returns one weight per symbol of the solver's
  output. If \<open>total > 0\<close> each returned weight is its cleaned weight divided by \<open>total\<close>,
  and the returned weights sum to 1 (over the reals, so within the 1e-4 of the claim);
  otherwise the cleaned weights are returned as they are. For every interval \<open>[lo, hi]\<close>
  that holds all the solver's weights, each returned weight is 0 or, multiplied by \<open>total\<close>
  when that is positive, lies between \<open>lo\<close> and \<open>hi\<close> rounded to five decimals. A returned
  weight can thus exceed the configured maximum, by the factor \<open>1 / total\<close> when the cutoff
  removed weight and by the rounding.
\<close>

theorem optimize_weights_normalised:
  assumes "optimize_weights solve config request = Inr ws"
  shows "\<exists>call raw.
      objective_call_of config = Inr call
    \<and> solve (Some (cfg_min_weight config, cfg_max_weight config)) call = Inr raw
    \<and> map fst ws = map fst raw
    \<and> (let cleaned = map (\<lambda>w. np_round 5 (if \<bar>w\<bar> < 5 / 1000 then 0 else w)) (map snd raw);
            total = sum_list cleaned
        in (if 0 < total
            then map snd ws = map (\<lambda>c. c / total) cleaned \<and> sum_list (map snd ws) = 1
            else map snd ws = cleaned)
         \<and> (\<forall>lo hi. (\<forall>w \<in> set (map snd raw). lo \<le> w \<and> w \<le> hi)
               \<longrightarrow> (\<forall>w \<in> set (map snd ws). w = 0
                     \<or> (np_round 5 lo \<le> w * (if 0 < total then total else 1)
                        \<and> w * (if 0 < total then total else 1) \<le> np_round 5 hi))))"
proof -
  obtain call where call: "objective_call_of config = Inr call"
    using assms by (cases "objective_call_of config") (simp_all add: optimize_weights_def)
  obtain raw where raw: "solve (Some (cfg_min_weight config, cfg_max_weight config)) call = Inr raw"
    using assms call
    by (cases "solve (Some (cfg_min_weight config, cfg_max_weight config)) call")
      (simp_all add: optimize_weights_def)
  define cleaned where
    "cleaned = map (\<lambda>w. np_round 5 (if \<bar>w\<bar> < 5 / 1000 then 0 else w)) (map snd raw)"
  define total where "total = sum_list cleaned"
  define d where "d = (if 0 < total then total else 1)"
  have ws: "ws = normalize_weights (clean_weights (5 / 1000) raw)"
    using assms call raw by (simp add: optimize_weights_def)
  have names: "map fst ws = map fst raw"
    by (simp only: ws normalize_weights_fst clean_weights_fst)
  have cl: "map snd (clean_weights (5 / 1000) raw) = cleaned"
    unfolding cleaned_def by (rule clean_weights_snd)
  have vals: "map snd ws = (if 0 < total then map (\<lambda>c. c / total) cleaned else cleaned)"
    by (simp only: ws normalize_weights_snd cl total_def)
  have one: "sum_list (map snd ws) = 1" if "0 < total"
    using that normalize_weights_sum [of "clean_weights (5 / 1000) raw"]
    by (simp only: ws cl total_def)
  have d: "0 < d"
    by (simp add: d_def)
  have scaled: "map snd ws = map (\<lambda>c. c / d) cleaned"
    by (simp add: vals d_def)
  have within: "w = 0 \<or> (np_round 5 lo \<le> w * d \<and> w * d \<le> np_round 5 hi)"
    if bounds: "\<forall>w \<in> set (map snd raw). lo \<le> w \<and> w \<le> hi" and w: "w \<in> set (map snd ws)"
    for lo hi w
  proof -
    obtain r where r: "r \<in> set (map snd raw)"
      and wr: "w = np_round 5 (if \<bar>r\<bar> < 5 / 1000 then 0 else r) / d"
      using w unfolding scaled cleaned_def by auto
    show ?thesis
    proof (cases "\<bar>r\<bar> < 5 / 1000")
      case True
      then show ?thesis
        using wr by (simp add: np_round_zero)
    next
      case False
      have "lo \<le> r" and "r \<le> hi"
        using bounds r by blast+
      then have "np_round 5 lo \<le> np_round 5 r" and "np_round 5 r \<le> np_round 5 hi"
        by (simp_all add: np_round_mono)
      moreover have "w * d = np_round 5 r"
        using wr False d by simp
      ultimately show ?thesis
        by simp
    qed
  qed
  have concl: "(if 0 < total
        then map snd ws = map (\<lambda>c. c / total) cleaned \<and> sum_list (map snd ws) = 1
        else map snd ws = cleaned)
     \<and> (\<forall>lo hi. (\<forall>w \<in> set (map snd raw). lo \<le> w \<and> w \<le> hi)
           \<longrightarrow> (\<forall>w \<in> set (map snd ws). w = 0
                 \<or> (np_round 5 lo \<le> w * (if 0 < total then total else 1)
                    \<and> w * (if 0 < total then total else 1) \<le> np_round 5 hi)))"
    using vals one within unfolding d_def by (cases "0 < total") auto
  from call raw names concl show ?thesis
    unfolding Let_def cleaned_def total_def by blast
qed

theorem optimize_weights_normalised_witness:
  "optimize_weights cut_solver tight_config tight_request
     = Inr [(''AAPL'', 330 / 993), (''MSFT'', 330 / 993), (''GOOGL'', 333 / 993),
            (''AMZN'', 0), (''TSLA'', 0)]
   \<and> sum_list [330 / 993, 330 / 993, 333 / 993, 0, 0 :: real] = 1
   \<and> list_all (\<lambda>w. w = 0 \<or> (1 / 1000 \<le> w * (993 / 1000) \<and> w * (993 / 1000) \<le> 333 / 1000))
       [330 / 993, 330 / 993, 333 / 993, 0, 0 :: real]
   \<and> cfg_max_weight tight_config < 333 / 993"
proof -
  let ?ws = "[(''AAPL'', 330 / 993), (''MSFT'', 330 / 993), (''GOOGL'', 333 / 993),
              (''AMZN'', 0), (''TSLA'', 0 :: real)]"
  have run: "optimize_weights cut_solver tight_config tight_request = Inr ?ws"
    by (simp add: optimize_weights_def objective_call_of_def tight_config_def cut_solver_def
        normalize_weights_def clean_weights_def np_round_def round_half_even_def Let_def)
  obtain call raw where
    raw: "cut_solver (Some (cfg_min_weight tight_config, cfg_max_weight tight_config)) call
          = Inr raw"
    and post: "let cleaned = map (\<lambda>w. np_round 5 (if \<bar>w\<bar> < 5 / 1000 then 0 else w))
                               (map snd raw);
                   total = sum_list cleaned
               in (if 0 < total
                   then map snd ?ws = map (\<lambda>c. c / total) cleaned
                     \<and> sum_list (map snd ?ws) = 1
                   else map snd ?ws = cleaned)
                \<and> (\<forall>lo hi. (\<forall>w \<in> set (map snd raw). lo \<le> w \<and> w \<le> hi)
                      \<longrightarrow> (\<forall>w \<in> set (map snd ?ws). w = 0
                            \<or> (np_round 5 lo \<le> w * (if 0 < total then total else 1)
                               \<and> w * (if 0 < total then total else 1) \<le> np_round 5 hi)))"
    using optimize_weights_normalised [OF run] by blast
  have raw_eq: "raw = [(''AAPL'', 330 / 1000), (''MSFT'', 330 / 1000), (''GOOGL'', 333 / 1000),
                       (''AMZN'', 4 / 1000), (''TSLA'', 3 / 1000)]"
    using raw by (simp add: cut_solver_def)
  have total: "sum_list (map (\<lambda>w. np_round 5 (if \<bar>w\<bar> < 5 / 1000 then 0 else w)) (map snd raw))
               = 993 / 1000"
    by (simp add: raw_eq np_round_def round_half_even_def Let_def)
  have r5: "np_round 5 (1 / 1000) = 1 / 1000" "np_round 5 (333 / 1000) = 333 / 1000"
    by (simp_all add: np_round_def round_half_even_def Let_def)
  have pos: "(0 :: real) < 993 / 1000"
    by simp
  note post = post [unfolded Let_def total if_P [OF pos]]
  have sum1: "sum_list (map snd ?ws) = 1"
    using post by blast
  have "\<forall>w \<in> set (map snd ?ws). w = 0
      \<or> (1 / 1000 \<le> w * (993 / 1000) \<and> w * (993 / 1000) \<le> 333 / 1000)"
  proof -
    have "\<forall>w \<in> set (map snd raw). 1 / 1000 \<le> w \<and> w \<le> 333 / 1000"
      by (simp add: raw_eq)
    then have "\<forall>w \<in> set (map snd ?ws). w = 0
        \<or> (np_round 5 (1 / 1000) \<le> w * (993 / 1000)
           \<and> w * (993 / 1000) \<le> np_round 5 (333 / 1000))"
      using post by blast
    then show ?thesis
      unfolding r5 by simp
  qed
  then show ?thesis
    using run sum1 by (simp add: tight_config_def list_all_iff)
qed

section \<open>Efficient frontier\<close>
















section \<open>Rate-limited gateway: the window invariant\<close>

lemma purge_purge: "t1 \<le> t2 \<Longrightarrow> purge t2 (purge t1 cs) = purge t2 cs"
  by (induction cs) (auto simp: purge_def)

lemma filter_length_mono:
  "(\<And>x. x \<in> set xs \<Longrightarrow> P x \<Longrightarrow> Q x) \<Longrightarrow> length (filter P xs) \<le> length (filter Q xs)"
  by (induction xs) auto

lemma record_step:
  assumes inv: "limiter_inv now calls history"
    and later: "now \<le> t"
    and room: "length (purge t calls) < max_calls_per_minute"
  shows "limiter_inv t (purge t calls @ [t]) (history @ [t])"
proof -
  have p: "purge t calls = purge t history"
    using inv later by (simp add: limiter_inv_def purge_purge)
  have eq: "purge t calls @ [t] = purge t (history @ [t])"
    using p by (simp add: purge_def rate_limit_window_def)
  have len: "length (purge t calls @ [t]) \<le> max_calls_per_minute"
    using room by simp
  have win: "length (filter (in_window T) (history @ [t])) \<le> max_calls_per_minute" for T
  proof (cases "in_window T t")
    case False
    then show ?thesis
      using inv by (simp add: limiter_inv_def)
  next
    case True
    have "length (filter (in_window T) (history @ [t]))
          \<le> length (filter (\<lambda>c. t - c < rate_limit_window) (history @ [t]))"
      by (rule filter_length_mono) (use True in \<open>auto simp: in_window_def\<close>)
    also have "\<dots> = length (purge t calls @ [t])"
      using eq by (simp add: purge_def)
    finally show ?thesis
      using len by simp
  qed
  show ?thesis
    using eq len win by (simp add: limiter_inv_def)
qed

lemma enter_waits:
  assumes "rate_limit_enter t calls = Waiting cs w"
  shows "cs = purge t calls \<and> max_calls_per_minute \<le> length cs
         \<and> t + w = Min (set cs) + rate_limit_window + 1 \<and> 0 < w"
  using assms by (auto simp: rate_limit_enter_def Let_def split: if_splits)

lemma enter_proceeds:
  assumes "rate_limit_enter t calls = Proceed cs"
  shows "cs = purge t calls @ [t] \<and> length (purge t calls) < max_calls_per_minute"
proof -
  let ?p = "purge t calls"
  have "\<not> (max_calls_per_minute \<le> length ?p)"
  proof
    assume full: "max_calls_per_minute \<le> length ?p"
    then have "?p \<noteq> []"
      by (auto simp: max_calls_per_minute_def)
    then have "Min (set ?p) \<in> set ?p"
      by simp
    then have "t - Min (set ?p) < rate_limit_window"
      by (simp add: purge_def)
    then have "0 < rate_limit_window - (t - Min (set ?p)) + 1"
      by simp
    then show False
      using assms full by (simp add: rate_limit_enter_def Let_def)
  qed
  then show ?thesis
    using assms by (simp add: rate_limit_enter_def Let_def)
qed

lemma enforce_step:
  assumes inv: "limiter_inv now calls history"
    and ok: "clock_ok now ((t_enter, t_wake) # rest) calls"
  shows "\<exists>t. now \<le> t \<and> last (enforce_rate_limit t_enter t_wake calls) = t
           \<and> limiter_inv t (enforce_rate_limit t_enter t_wake calls) (history @ [t])
           \<and> clock_ok t rest (enforce_rate_limit t_enter t_wake calls)"
proof (cases "rate_limit_enter t_enter calls")
  case (Proceed cs)
  have le: "now \<le> t_enter"
    using ok by simp
  have cs: "cs = purge t_enter calls @ [t_enter]"
    and room: "length (purge t_enter calls) < max_calls_per_minute"
    using enter_proceeds [OF Proceed] by simp_all
  have "limiter_inv t_enter cs (history @ [t_enter])"
    unfolding cs using inv le room by (rule record_step)
  moreover have "clock_ok t_enter rest cs"
    using ok Proceed by simp
  ultimately show ?thesis
    using le Proceed cs by (auto simp: enforce_rate_limit_def)
next
  case (Waiting cs w)
  have le: "now \<le> t_enter" and slept: "t_enter + w \<le> t_wake"
    using ok Waiting by simp_all
  have cs: "cs = purge t_enter calls" and full: "max_calls_per_minute \<le> length cs"
    and wake: "t_enter + w = Min (set cs) + rate_limit_window + 1" and pos: "0 < w"
    using enter_waits [OF Waiting] by blast+
  have le2: "t_enter \<le> t_wake"
    using slept pos by simp
  have "cs \<noteq> []"
    using full by (auto simp: max_calls_per_minute_def)
  then have oldest: "Min (set cs) \<in> set cs"
    by simp
  have gone: "\<not> (t_wake - Min (set cs) < rate_limit_window)"
    using slept wake by simp
  have "length (purge t_wake cs) < length cs"
    unfolding purge_def using oldest gone by (rule length_filter_less)
  moreover have "length cs \<le> length calls"
    unfolding cs purge_def by (rule length_filter_le)
  moreover have "length calls \<le> max_calls_per_minute"
    using inv unfolding limiter_inv_def by blast
  ultimately have room: "length (purge t_wake calls) < max_calls_per_minute"
    using purge_purge [OF le2, of calls] cs by simp
  have res: "enforce_rate_limit t_enter t_wake calls = purge t_wake calls @ [t_wake]"
    using Waiting cs purge_purge [OF le2, of calls]
    by (simp add: enforce_rate_limit_def rate_limit_resume_def)
  have "limiter_inv t_wake (purge t_wake calls @ [t_wake]) (history @ [t_wake])"
    using inv _ room by (rule record_step) (use le le2 in simp)
  moreover have "clock_ok t_wake rest (purge t_wake calls @ [t_wake])"
    using ok Waiting res by (simp add: enforce_rate_limit_def)
  ultimately show ?thesis
    using le le2 res by auto
qed

lemma run_calls_inv:
  assumes "limiter_inv now calls history" and "clock_ok now schedule calls"
  shows "\<exists>t. limiter_inv t (fst (run_calls schedule (calls, history)))
               (snd (run_calls schedule (calls, history)))"
  using assms
proof (induction schedule arbitrary: now calls history)
  case Nil
  then show ?case by auto
next
  case (Cons call rest)
  obtain t_enter t_wake where call: "call = (t_enter, t_wake)"
    by (cases call)
  obtain t where "limiter_inv t (enforce_rate_limit t_enter t_wake calls) (history @ [t])"
    and "clock_ok t rest (enforce_rate_limit t_enter t_wake calls)"
    and "last (enforce_rate_limit t_enter t_wake calls) = t"
    using enforce_step [OF Cons.prems(1)] Cons.prems(2) call by blast
  then show ?case
    using Cons.IH [of t "enforce_rate_limit t_enter t_wake calls" "history @ [t]"] call
    by (simp add: Let_def)
qed

text \<open>
  Calls that run one after the other, each returning before the next enters, under a clock
  that does not run backwards and sleeps that last at least the time asked for, keep the
  limit: \<^verbatim>\<open>calls_made\<close> never holds more than 60 timestamps, and for every time \<open>T\<close> at
  most 60 of all the calls ever recorded lie in the 60 seconds trailing \<open>T\<close>. A caller that
  finds 60 or more timestamps after the purge sleeps until one second after the oldest of
  them leaves the window.
\<close>

lemma run_calls_window_bound:
  assumes "clock_ok t0 schedule []"
  shows "length (fst (run_calls schedule ([], []))) \<le> max_calls_per_minute
    \<and> length (filter (in_window T) (snd (run_calls schedule ([], [])))) \<le> max_calls_per_minute
    \<and> (\<forall>t calls cs w. rate_limit_enter t calls = Waiting cs w \<longrightarrow>
          cs = purge t calls \<and> max_calls_per_minute \<le> length cs
          \<and> t + w = Min (set cs) + rate_limit_window + 1)"
proof -
  have "limiter_inv t0 [] []"
    by (simp add: limiter_inv_def purge_def)
  then obtain t where "limiter_inv t (fst (run_calls schedule ([], [])))
      (snd (run_calls schedule ([], [])))"
    using run_calls_inv assms by blast
  then have "length (fst (run_calls schedule ([], []))) \<le> max_calls_per_minute"
    and "\<forall>T. length (filter (in_window T) (snd (run_calls schedule ([], []))))
           \<le> max_calls_per_minute"
    unfolding limiter_inv_def by blast+
  then show ?thesis
    using enter_waits by blast
qed

text \<open>
  C3. The gateway is to let no trailing 60-second window hold more than 60 recorded calls,
  for every sequence of calls. Calls through the gateway are coroutines on one shared
  client, and a call that sleeps lets others run; after waking it purges and records
  without counting again. With the list at one call from time 0 and 59 from time 30, two
  callers that enter at time 31 both find 60 entries and both sleep 30 seconds; at time 61
  each purges and records, and the list holds 61 calls, all within the window trailing
  time 61. The same happens with one sleeper: a caller that enters at time 40 sleeps 21
  seconds; a second caller enters at time 60.5, when the call from time 0 has left the
  window, finds 59 entries and records; the first wakes at time 61, purges nothing and
  records the 61st call of the window.
\<close>

theorem rate_limit_overlap_exceeds_limit:
  "fst (run_calls ((0, 0) # replicate 59 (30, 30)) ([], [])) = 0 # replicate 59 30
   \<and> rate_limit_enter 31 (0 # replicate 59 30) = Waiting (0 # replicate 59 30) 30
   \<and> (31 :: real) + 30 \<le> 61
   \<and> rate_limit_resume 61 (rate_limit_resume 61 (0 # replicate 59 30))
     = replicate 59 30 @ [61, 61]
   \<and> length (filter (in_window 61) (replicate 59 30 @ [61, 61])) = 61
   \<and> rate_limit_enter 40 (0 # replicate 59 30) = Waiting (0 # replicate 59 30) 21
   \<and> (40 :: real) + 21 \<le> 61
   \<and> rate_limit_enter (121 / 2) (0 # replicate 59 30) = Proceed (replicate 59 30 @ [121 / 2])
   \<and> rate_limit_resume 61 (replicate 59 30 @ [121 / 2]) = replicate 59 30 @ [121 / 2, 61]
   \<and> length (filter (in_window 61) (replicate 59 30 @ [121 / 2, 61])) = 61
   \<and> max_calls_per_minute < 61"
proof -
  have "fst (run_calls ((0, 0) # replicate 59 (30, 30)) ([], [])) = 0 # replicate 59 30"
    by code_simp
  then show ?thesis
    by (simp add: rate_limit_enter_def rate_limit_resume_def purge_def rate_limit_window_def
        max_calls_per_minute_def in_window_def Let_def)
qed

section \<open>Risk metrics: sign and null\<close>

lemma fabs_nonneg: "fabs x = NaN \<or> fle (Finite 0) (fabs x)"
  by (cases x) simp_all

lemma ffill_from_replicate: "ffill_from prev (replicate n (Some p)) = replicate n (Some p)"
  by (induction n arbitrary: prev) simp_all

lemma pct_change_column_constant:
  assumes "0 < n" and "p \<noteq> 0"
  shows "pct_change_column (replicate n (Some p)) = NaN # replicate (n - 1) (Finite 0)"
proof -
  have "tl (replicate n (Some p)) = replicate (n - 1) (Some p)"
    by (cases n) simp_all
  then show ?thesis
    using assms by (simp add: pct_change_column_def ffill_from_replicate fsub_def Let_def)
qed

lemma np_dot_zero_row:
  assumes "\<forall>x \<in> set row. x = Finite 0"
  shows "np_dot row ws = Finite 0"
proof -
  have "foldl fadd (Finite a) (map2 (\<lambda>x w. fmul x (Finite w)) row ws) = Finite a" for a
    using assms
  proof (induction row arbitrary: ws)
    case Nil
    then show ?case by simp
  next
    case (Cons x row)
    then show ?case by (cases ws) simp_all
  qed
  then show ?thesis
    by (simp add: np_dot_def)
qed

lemma portfolio_returns_constant:
  assumes "constant_prices df"
  shows "\<exists>m. 0 < m \<and> portfolio_returns df ws = replicate m (Finite 0)"
proof -
  let ?n = "length (df_index df)"
  let ?cols = "map (\<lambda>(symbol, cells). pct_change_column cells) (df_columns df)"
  have n: "2 \<le> ?n"
    using assms by (simp add: constant_prices_def)
  have col: "pct_change_column cells = NaN # replicate (?n - 1) (Finite 0)"
    if mem: "(symbol, cells) \<in> set (df_columns df)" for symbol cells
  proof -
    from assms mem have "case hd cells of None \<Rightarrow> False
        | Some p \<Rightarrow> p \<noteq> 0 \<and> cells = replicate ?n (Some p)"
      by (auto simp: constant_prices_def list_all_iff)
    then obtain p where p: "p \<noteq> 0" and cells: "cells = replicate ?n (Some p)"
      by (cases "hd cells") auto
    have "0 < ?n"
      using n by linarith
    then show ?thesis
      using pct_change_column_constant [OF _ p, of ?n] by (simp only: cells)
  qed
  have elem: "x = (NaN # replicate (?n - 1) (Finite 0)) ! i"
    if "x \<in> set (map (\<lambda>column. column ! i) ?cols)" for x i
    using that by (auto simp: col)
  have zero_row: "\<forall>x \<in> set row. x = Finite 0"
    if i: "i < ?n" and row: "row = map (\<lambda>column. column ! i) ?cols"
      and no_nan: "NaN \<notin> set row" for row i
  proof (cases i)
    case 0
    then have "\<forall>x \<in> set row. x = NaN"
      using elem [of _ 0] row by simp
    with no_nan have "row = []"
      by (cases row) auto
    then show ?thesis by simp
  next
    case (Suc j)
    then have "(NaN # replicate (?n - 1) (Finite 0)) ! i = Finite 0"
      using i by simp
    then show ?thesis
      using elem [of _ i] row by simp
  qed
  have all_zero: "\<forall>row \<in> set (dropna_rows ?n ?cols). \<forall>x \<in> set row. x = Finite 0"
  proof
    fix row
    assume "row \<in> set (dropna_rows ?n ?cols)"
    then obtain i where "i < ?n" and "row = map (\<lambda>column. column ! i) ?cols"
      and "NaN \<notin> set row"
      unfolding dropna_rows_def by auto
    then show "\<forall>x \<in> set row. x = Finite 0"
      by (rule zero_row)
  qed
  have one: "map (\<lambda>column. column ! 1) ?cols \<in> set (dropna_rows ?n ?cols)"
  proof -
    have nth1: "(NaN # replicate (?n - 1) (Finite 0)) ! 1 = Finite 0"
      using n by simp
    have "NaN \<notin> set (map (\<lambda>column. column ! 1) ?cols)"
    proof
      assume "NaN \<in> set (map (\<lambda>column. column ! 1) ?cols)"
      from elem [OF this] show False
        unfolding nth1 by simp
    qed
    moreover have "(1 :: nat) \<in> set [0..<?n]"
      using n by simp
    ultimately show ?thesis
      unfolding dropna_rows_def by (simp del: upt_Suc set_upt) blast
  qed
  have "\<forall>r \<in> set (portfolio_returns df ws). r = Finite 0"
    using all_zero np_dot_zero_row by (auto simp: portfolio_returns_def Let_def)
  then have "portfolio_returns df ws = replicate (length (portfolio_returns df ws)) (Finite 0)"
    by (simp add: replicate_length_same)
  moreover have "portfolio_returns df ws \<noteq> []"
    using one by (auto simp: portfolio_returns_def Let_def)
  ultimately show ?thesis
    by (metis length_greater_0_conv)
qed

lemma np_cumprod_from_ones:
  "np_cumprod_from (Finite 1) (replicate j (Finite 1)) = replicate j (Finite 1)"
  by (induction j) simp_all

lemma cumprod_ones: "cumprod (replicate m (Finite 1)) = replicate m (Finite 1)"
  by (cases m) (simp_all add: cumprod_def np_cumprod_def np_cumprod_from_ones)

lemma roll_max_ones:
  "0 < nobs \<Longrightarrow> roll_max [Finite 1] nobs (replicate j (Finite 1)) = replicate j (Finite 1)"
  by (induction j arbitrary: nobs) (simp_all add: push_max_def Let_def)

lemma expanding_max_ones: "expanding_max (replicate m (Finite 1)) = replicate m (Finite 1)"
  by (cases m) (simp_all add: expanding_max_def push_max_def roll_max_ones Let_def)

lemma finsert_replicate: "finsert (Finite a) (replicate j (Finite a)) = replicate (Suc j) (Finite a)"
  by (cases j) simp_all

lemma fsort_replicate: "fsort (replicate m (Finite a)) = replicate m (Finite a)"
  by (induction m) (simp_all add: fsort_def finsert_replicate)

lemma nanmin_zeros: "0 < m \<Longrightarrow> nanmin (replicate m (Finite 0)) = Finite 0"
  using fsort_replicate [of m 0] by (cases m) (simp_all add: nanmin_def)

lemma max_drawdown_zero_returns:
  assumes "0 < m" and "portfolio_returns df ws = replicate m (Finite 0)"
  shows "calculate_max_drawdown empty_raises df ws = Value (Finite 0)"
  using assms
  by (simp add: calculate_max_drawdown_def cumprod_ones expanding_max_ones fsub_def nanmin_zeros
      Let_def)

lemma lerp_zeros: "lerp (Finite 0) (Finite 0) t = Finite 0"
  by (simp add: lerp_def fsub_def)

lemma percentile_zeros:
  assumes "0 < m" and "0 \<le> q"
  shows "percentile (replicate m (Finite 0)) q = Finite 0"
proof -
  let ?v = "real (m - 1) * (q / 100)"
  have "nat \<lfloor>?v\<rfloor> + 1 < m" if "?v < real (m - 1)"
  proof -
    have "0 \<le> ?v"
      using assms(2) by simp
    moreover have "\<lfloor>?v\<rfloor> < int (m - 1)"
      unfolding floor_less_iff of_int_of_nat_eq by (rule that)
    ultimately show ?thesis
      by linarith
  qed
  then show ?thesis
    using assms(1) by (auto simp: percentile_def fsort_replicate lerp_zeros Let_def)
qed

lemma foldl_fadd_zeros: "foldl fadd (Finite 0) (replicate m (Finite 0)) = Finite 0"
  by (induction m) simp_all

lemma cvar_zero_returns:
  assumes "0 < m" and "portfolio_returns df ws = replicate m (Finite 0)"
    and "0 \<le> confidence * 100" and "confidence * 100 \<le> 100"
  shows "calculate_cvar empty_raises df ws confidence = Value (Finite 0)"
proof -
  have "percentile (replicate m (Finite 0)) (confidence * 100) = Finite 0"
    using assms(1,3) by (rule percentile_zeros)
  then show ?thesis
    using assms by (simp add: calculate_cvar_def mean_def foldl_fadd_zeros Let_def)
qed

text \<open>
  C9, as stated: whatever either function returns that is not null is at least 0, and on a
  degenerate series, for instance one of zero variance, both return null. For three symbols
  whose prices never move the body raises nowhere: every return is 0, and both functions
  return the number 0, not null. For a symbol whose price falls from 100 to 0 and is 50 the
  day after, the returns are -1 and infinity, the cumulated growth 0 and then NaN, and
  \<^verbatim>\<open>_calculate_max_drawdown\<close> returns NaN, which is not null and not at least 0.
\<close>

theorem risk_metrics_zero_variance_counterexample:
  "calculate_max_drawdown True constant_frame third_weights = Value (Finite 0)
   \<and> calculate_cvar True constant_frame third_weights (5 / 100) = Value (Finite 0)
   \<and> Value (Finite 0) \<noteq> Null
   \<and> calculate_max_drawdown True zero_price_frame [(''AAPL'', 1)] = Value NaN
   \<and> Value NaN \<noteq> Null \<and> \<not> fle (Finite 0) NaN"
proof -
  have rets: "portfolio_returns constant_frame third_weights = replicate 2 (Finite 0)"
    by (simp add: portfolio_returns_def constant_frame_def third_weights_def dropna_rows_def
        pct_change_column_def weight_of_def np_dot_def fsub_def Let_def upt_rec
        numeral_2_eq_2)
  have "calculate_max_drawdown True constant_frame third_weights = Value (Finite 0)"
    using rets by (rule max_drawdown_zero_returns [rotated]) simp
  moreover have "calculate_cvar True constant_frame third_weights (5 / 100) = Value (Finite 0)"
    using rets by (rule cvar_zero_returns [rotated]) simp_all
  moreover have "portfolio_returns zero_price_frame [(''AAPL'', 1)]
      = [Finite (- 1), PosInf, Finite (1 / 5)]"
    by (simp add: portfolio_returns_def zero_price_frame_def dropna_rows_def
        pct_change_column_def weight_of_def np_dot_def fsub_def Let_def upt_rec)
  then have "calculate_max_drawdown True zero_price_frame [(''AAPL'', 1)] = Value NaN"
    by (simp add: calculate_max_drawdown_def cumprod_def np_cumprod_def expanding_max_def
        push_max_def nanmin_def fsort_def fsub_def Let_def)
  ultimately show ?thesis
    by simp
qed

text \<open>
  C9, amended. \<^verbatim>\<open>_calculate_max_drawdown\<close> and \<^verbatim>\<open>_calculate_cvar\<close> are total: for every
  dataset of present or missing prices and every weight mapping each returns null or a
  float, never an error. Null is returned exactly where the body raises: by
  \<^verbatim>\<open>_calculate_max_drawdown\<close> when the series of returns is empty and pandas raises on
  it, by \<^verbatim>\<open>_calculate_cvar\<close> when the percentile asked for lies outside \<open>[0, 100]\<close> or
  the series of returns is empty and numpy raises on it. A float that either returns is
  NaN or at least 0. On a dataset of two or more rows in which every price is present, not
  zero and constant, \<^verbatim>\<open>_calculate_max_drawdown\<close> returns 0 and, for a percentile within
  \<open>[0, 100]\<close>, so does \<^verbatim>\<open>_calculate_cvar\<close>.
\<close>

theorem risk_metrics_nonnegative:
  "(calculate_max_drawdown drawdown_empty_raises historical_data ws = Null
      \<longleftrightarrow> drawdown_empty_raises \<and> portfolio_returns historical_data ws = [])
   \<and> (calculate_cvar percentile_empty_raises historical_data ws confidence = Null
      \<longleftrightarrow> confidence * 100 < 0 \<or> 100 < confidence * 100
          \<or> percentile_empty_raises \<and> portfolio_returns historical_data ws = [])
   \<and> (\<forall>v. calculate_max_drawdown drawdown_empty_raises historical_data ws = Value v
          \<or> calculate_cvar percentile_empty_raises historical_data ws confidence = Value v
        \<longrightarrow> v = NaN \<or> fle (Finite 0) v)
   \<and> (constant_prices historical_data
        \<longrightarrow> calculate_max_drawdown drawdown_empty_raises historical_data ws = Value (Finite 0)
          \<and> (0 \<le> confidence * 100 \<and> confidence * 100 \<le> 100
               \<longrightarrow> calculate_cvar percentile_empty_raises historical_data ws confidence
                   = Value (Finite 0)))"
proof -
  have "calculate_max_drawdown drawdown_empty_raises historical_data ws = Null
      \<longleftrightarrow> drawdown_empty_raises \<and> portfolio_returns historical_data ws = []"
    by (auto simp: calculate_max_drawdown_def Let_def)
  moreover have "calculate_cvar percentile_empty_raises historical_data ws confidence = Null
      \<longleftrightarrow> confidence * 100 < 0 \<or> 100 < confidence * 100
          \<or> percentile_empty_raises \<and> portfolio_returns historical_data ws = []"
    by (auto simp: calculate_cvar_def Let_def)
  moreover have "v = NaN \<or> fle (Finite 0) v"
    if "calculate_max_drawdown drawdown_empty_raises historical_data ws = Value v
          \<or> calculate_cvar percentile_empty_raises historical_data ws confidence = Value v"
    for v
    using that fabs_nonneg
    by (auto simp: calculate_max_drawdown_def calculate_cvar_def Let_def split: if_splits)
  moreover have "calculate_max_drawdown drawdown_empty_raises historical_data ws
        = Value (Finite 0)
      \<and> (0 \<le> confidence * 100 \<and> confidence * 100 \<le> 100
           \<longrightarrow> calculate_cvar percentile_empty_raises historical_data ws confidence
               = Value (Finite 0))"
    if cp: "constant_prices historical_data"
  proof -
    obtain m where "0 < m" and "portfolio_returns historical_data ws = replicate m (Finite 0)"
      using portfolio_returns_constant [OF cp] by blast
    then show ?thesis
      using max_drawdown_zero_returns cvar_zero_returns by blast
  qed
  ultimately show ?thesis
    by blast
qed

theorem risk_metrics_nonnegative_witness:
  "calculate_max_drawdown True dip_frame [(''AAPL'', 1)] = Value (Finite (1 / 10))
   \<and> calculate_cvar True dip_frame [(''AAPL'', 1)] (5 / 100) = Value (Finite (sqrt 252 / 10))
   \<and> fle (Finite 0) (Finite (1 / 10)) \<and> fle (Finite 0) (Finite (sqrt 252 / 10))
   \<and> constant_prices constant_frame
   \<and> calculate_max_drawdown False constant_frame [(''MSFT'', 1)] = Value (Finite 0)
   \<and> calculate_cvar False constant_frame [(''MSFT'', 1)] (5 / 100) = Value (Finite 0)
   \<and> portfolio_returns one_row_frame [(''AAPL'', 1)] = []
   \<and> calculate_max_drawdown False one_row_frame [(''AAPL'', 1)] = Value NaN
   \<and> calculate_cvar True one_row_frame [(''AAPL'', 1)] (5 / 100) = Null
   \<and> calculate_max_drawdown True zero_price_frame [(''MSFT'', 1)] = Value (Finite 0)
   \<and> calculate_cvar True zero_price_frame [(''AAPL'', 1)] (5 / 100) = Value (Finite (sqrt 252))"
proof -
  have dip: "portfolio_returns dip_frame [(''AAPL'', 1)] = [Finite (1 / 10), Finite (- (1 / 10))]"
    by (simp add: portfolio_returns_def dip_frame_def dropna_rows_def pct_change_column_def
        weight_of_def np_dot_def fsub_def Let_def upt_rec)
  have dd: "calculate_max_drawdown True dip_frame [(''AAPL'', 1)] = Value (Finite (1 / 10))"
    by (simp add: calculate_max_drawdown_def dip cumprod_def np_cumprod_def expanding_max_def
        push_max_def nanmin_def fsort_def fsub_def Let_def)
  have cv: "calculate_cvar True dip_frame [(''AAPL'', 1)] (5 / 100)
      = Value (Finite (sqrt 252 / 10))"
    by (simp add: calculate_cvar_def dip percentile_def lerp_def mean_def fsort_def fsub_def
        abs_mult Let_def)
  have const: "constant_prices constant_frame"
    by (simp add: constant_prices_def constant_frame_def numeral_3_eq_3)
  have one: "portfolio_returns one_row_frame [(''AAPL'', 1)] = []"
    by (simp add: portfolio_returns_def one_row_frame_def dropna_rows_def
        pct_change_column_def Let_def)
  have one_dd: "calculate_max_drawdown False one_row_frame [(''AAPL'', 1)] = Value NaN"
    by (simp add: calculate_max_drawdown_def one cumprod_def np_cumprod_def expanding_max_def
        nanmin_def fsort_def)
  have zero_dd: "calculate_max_drawdown True zero_price_frame [(''MSFT'', 1)] = Value (Finite 0)"
    by (simp add: calculate_max_drawdown_def portfolio_returns_def zero_price_frame_def
        dropna_rows_def pct_change_column_def weight_of_def np_dot_def fsub_def Let_def upt_rec
        cumprod_def np_cumprod_def expanding_max_def push_max_def nanmin_def fsort_def)
  have zero_cv: "calculate_cvar True zero_price_frame [(''AAPL'', 1)] (5 / 100)
      = Value (Finite (sqrt 252))"
    by (simp add: calculate_cvar_def portfolio_returns_def zero_price_frame_def dropna_rows_def
        pct_change_column_def weight_of_def np_dot_def fsub_def Let_def upt_rec
        percentile_def lerp_def mean_def fsort_def)
  show ?thesis
    using risk_metrics_nonnegative [of True dip_frame "[(''AAPL'', 1)]" True "5 / 100"]
      risk_metrics_nonnegative [of False constant_frame "[(''MSFT'', 1)]" False "5 / 100"]
      risk_metrics_nonnegative [of False one_row_frame "[(''AAPL'', 1)]" True "5 / 100"]
      dd cv const one zero_dd zero_cv one_dd
    by simp
qed

section \<open>Too few holdings\<close>











section \<open>Missing target return\<close>

lemma str_nat_400: "str_nat 400 = ''400''"
  by code_simp

text \<open>
  C8. A request for the objective \<open>efficient_return\<close> with no target return is rejected by
  the route \<^verbatim>\<open>/optimize\<close> with \<^verbatim>\<open>HTTPException(400)\<close>, raised inside the route's own
  \<^verbatim>\<open>try\<close>: its last handler catches it and the caller receives status 500, with no
  holdings read and no external request made. The service itself does not reject the
  request: its configuration keeps the profile's target return, here 0.12, and for every
  solver the solving step asks for that target and fails only where the solver does. The
  route \<^verbatim>\<open>/compare\<close> hands every request to the service with no check of its own and
  succeeds exactly when the service does.
\<close>

theorem api_missing_target_return_status_500:
  "api_optimize_portfolio env clk no_target_request st
     = (Inl (HTTPException 500
          (''Optimization failed: 400: ''
             @ ''target_return is required when objective is 'efficient_return''
             @ [CHR 0x27])),
        st, [])
   \<and> (case get_risk_config no_target_request of
         Inl e \<Rightarrow> Inl e
       | Inr config \<Rightarrow> objective_call_of config)
     = Inr (EfficientReturn (Some (12 / 100)))
   \<and> (case get_risk_config no_target_request of
         Inl e \<Rightarrow> Inl e
       | Inr config \<Rightarrow> optimize_weights solve config no_target_request)
     = (case solve (Some (1 / 100, 4 / 10)) (EfficientReturn (Some (12 / 100))) of
          Inl e \<Rightarrow> Inl (optimization_failed e)
        | Inr raw \<Rightarrow> Inr (normalize_weights (clean_weights (5 / 1000) raw)))
   \<and> succeeded (fst (api_compare_portfolios env clk request st))
     = succeeded (fst (optimize_portfolio env clk request st))"
proof -
  obtain r st' calls where run: "optimize_portfolio env clk request st = (r, st', calls)"
    by (cases "optimize_portfolio env clk request st")
  have "succeeded (fst (api_compare_portfolios env clk request st))
      = succeeded (fst (optimize_portfolio env clk request st))"
    unfolding run by (cases r) (simp_all add: api_compare_portfolios_def run)
  then show ?thesis
    by (simp add: api_optimize_portfolio_def no_target_request_def truthy_opt_def str_nat_400
        get_risk_config_def RISK_PROFILES_def moderate_profile_def truthy_num_def
        truthy_str_def objective_call_of_def optimize_weights_def Let_def
        del: str_nat.simps)
qed

end
